theory Spec2Isabelle
  imports Complex_Main "HOL-Library.AList" "HOL-Library.Sublist"
begin

section \<open>JavaScript strings\<close>

text \<open>
  A JavaScript string is modelled as a \<open>string\<close>: one \<open>char\<close> per code unit, for
  text whose code units lie in the Latin-1 range.  The helpers below are the runtime
  operations the repository's code calls on strings.
\<close>

definition newline :: char where
  "newline = CHR 0x0A"

definition backslash :: char where
  "backslash = CHR 0x5C"

text \<open>\<open>s.split(d)\<close> for a one-character separator: never empty, \<open>"".split(d) = [""]\<close>.\<close>

fun splitOn :: "char \<Rightarrow> string \<Rightarrow> string list" where
  "splitOn d [] = [[]]"
| "splitOn d (c # cs) =
     (if c = d then [] # splitOn d cs
      else (case splitOn d cs of w # ws \<Rightarrow> (c # w) # ws | [] \<Rightarrow> [[c]]))"

text \<open>White space as \<open>\s\<close> and \<open>trim()\<close> see it: TAB, LF, VT, FF, CR, SPACE, NBSP.\<close>

definition whitespaceChars :: "char list" where
  "whitespaceChars = [CHR 0x09, CHR 0x0A, CHR 0x0B, CHR 0x0C, CHR 0x0D, CHR 0x20, CHR 0xA0]"

definition isSpace :: "char \<Rightarrow> bool" where
  "isSpace c = (c \<in> set whitespaceChars)"

definition trim :: "string \<Rightarrow> string" where
  "trim s = rev (dropWhile isSpace (rev (dropWhile isSpace s)))"

text \<open>\<open>\w\<close> is \<open>[A-Za-z0-9_]\<close>.\<close>

definition isWordChar :: "char \<Rightarrow> bool" where
  "isWordChar c =
     (let n = (of_char c :: nat)
      in (48 \<le> n \<and> n \<le> 57) \<or> (65 \<le> n \<and> n \<le> 90) \<or> n = 95 \<or> (97 \<le> n \<and> n \<le> 122))"

text \<open>
  Case mapping of one code unit.  \<open>toUpperCase\<close> is also the canonicalisation a regular
  expression with the \<open>i\<close> flag applies to both sides of a comparison; the two Latin-1
  letters whose upper case lies outside Latin-1 stay as they are, which compares the
  same way.
\<close>

definition toUpperCase :: "char \<Rightarrow> char" where
  "toUpperCase c =
     (let n = (of_char c :: nat)
      in if (97 \<le> n \<and> n \<le> 122) \<or> (224 \<le> n \<and> n \<le> 254 \<and> n \<noteq> 247)
         then char_of (n - 32) else c)"

definition toLowerCase :: "char \<Rightarrow> char" where
  "toLowerCase c =
     (let n = (of_char c :: nat)
      in if (65 \<le> n \<and> n \<le> 90) \<or> (192 \<le> n \<and> n \<le> 222 \<and> n \<noteq> 215)
         then char_of (n + 32) else c)"

section \<open>Data model (types.ts)\<close>

datatype RepoStatus = Pending | Indexing | Ready | Failed

record Repository =
  repo_id :: string
  repo_remote :: string
  repo_owner :: string
  repo_name :: string
  repo_branch :: string
  repo_localPath :: string
  repo_status :: RepoStatus
  repo_filesProcessed :: nat
  repo_totalFiles :: nat
  repo_indexedAt :: "nat option"
  repo_error :: "string option"

record FunctionInfo =
  fn_name :: string
  fn_file :: string
  fn_startLine :: nat
  fn_endLine :: nat
  fn_signature :: string
  fn_calls :: "string list"
  fn_calledBy :: "string list"

datatype MatchType = Exact | Fuzzy | Semantic

record SearchResult =
  sr_file :: string
  sr_line :: nat
  sr_content :: string
  sr_matchType :: MatchType
  sr_score :: real

record FileContent =
  fc_path :: string
  fc_content :: string
  fc_language :: string
  fc_lines :: nat
  fc_functions :: "string list"
  fc_imports :: "string list"
  fc_exports :: "string list"

text \<open>
  A JavaScript \<open>Map\<close> iterates in insertion order: it is an association list with
  distinct keys, \<open>map_of\<close> for \<open>get\<close> and \<open>AList.update\<close> for \<open>set\<close> (an existing key
  keeps its place and takes the new value, a new key goes to the end).
\<close>

record RepositoryIndex =
  ix_repository :: Repository
  ix_files :: "(string \<times> FileContent) list"
  ix_functions :: "(string \<times> FunctionInfo) list"
  ix_imports :: "(string \<times> string list) list"
  ix_exports :: "(string \<times> string list) list"

text \<open>The two module-level stores of git.service.ts.\<close>

record Store =
  repositoryStore :: "(string \<times> Repository) list"
  indexStore :: "(string \<times> RepositoryIndex) list"

datatype error = Error string | SyntaxError string

section \<open>Repository identity and the repository store (git.service.ts)\<close>

definition generateRepoId :: "string \<Rightarrow> string \<Rightarrow> string \<Rightarrow> string \<Rightarrow> string" where
  "generateRepoId remote owner name branch =
     remote @ '':'' @ branch @ '':'' @ owner @ ''/'' @ name"

definition getRepository :: "Store \<Rightarrow> string \<Rightarrow> Repository option" where
  "getRepository st repoId = map_of (repositoryStore st) repoId"

definition setRepository :: "string \<Rightarrow> Repository \<Rightarrow> Store \<Rightarrow> Store" where
  "setRepository repoId repo st =
     st\<lparr>repositoryStore := AList.update repoId repo (repositoryStore st)\<rparr>"

definition listRepositories :: "Store \<Rightarrow> Repository list" where
  "listRepositories st = map snd (repositoryStore st)"

definition getIndex :: "Store \<Rightarrow> string \<Rightarrow> RepositoryIndex option" where
  "getIndex st repoId = map_of (indexStore st) repoId"

section \<open>Text search (git.service.ts)\<close>

text \<open>\<open>escapeRegex\<close>: every character of \<open>.*+?^${}()|[]\\<close> gets a backslash in front.\<close>

definition syntaxChars :: "char list" where
  "syntaxChars = [CHR ''.'', CHR ''*'', CHR ''+'', CHR ''?'', CHR ''^'', CHR ''$'', CHR ''{'',
     CHR ''}'', CHR ''('', CHR '')'', CHR ''|'', CHR ''['', CHR '']'', CHR 0x5C]"

definition isSyntaxChar :: "char \<Rightarrow> bool" where
  "isSyntaxChar c = (c \<in> set syntaxChars)"

fun escapeRegex :: "string \<Rightarrow> string" where
  "escapeRegex [] = []"
| "escapeRegex (c # cs) =
     (if isSyntaxChar c then backslash # c # escapeRegex cs else c # escapeRegex cs)"

text \<open>
  The \<open>RegExp\<close> constructor on a pattern built only from plain characters and escaped
  syntax characters: such a pattern matches one literal text, which is returned.  Any
  other pattern is outside this fragment (\<open>None\<close>).
\<close>

fun literalOfPattern :: "string \<Rightarrow> string option" where
  "literalOfPattern [] = Some []"
| "literalOfPattern [c] = (if isSyntaxChar c then None else Some [c])"
| "literalOfPattern (c # d # cs) =
     (if c = backslash
      then (if isSyntaxChar d then map_option (Cons d) (literalOfPattern cs) else None)
      else if isSyntaxChar c then None
      else map_option (Cons c) (literalOfPattern (d # cs)))"

text \<open>
  \<open>RegExp.prototype.test\<close> of a literal pattern carrying the \<open>g\<close> flag.  The regular
  expression object keeps \<open>lastIndex\<close>: the search starts there, a hit leaves it just
  after the matched text, a miss resets it to 0.  \<open>ignoreCase\<close> is the \<open>i\<close> flag.
\<close>

definition canonicalize :: "bool \<Rightarrow> char \<Rightarrow> char" where
  "canonicalize ignoreCase c = (if ignoreCase then toUpperCase c else c)"

definition matchesAt :: "bool \<Rightarrow> string \<Rightarrow> string \<Rightarrow> nat \<Rightarrow> bool" where
  "matchesAt ignoreCase q s i =
     (map (canonicalize ignoreCase) (take (length q) (drop i s)) = map (canonicalize ignoreCase) q)"

definition regexTest :: "bool \<Rightarrow> string \<Rightarrow> nat \<Rightarrow> string \<Rightarrow> bool \<times> nat" where
  "regexTest ignoreCase q lastIndex s =
     (if lastIndex > length s then (False, 0)
      else (case find (matchesAt ignoreCase q s) [lastIndex ..< Suc (length s)] of
              None \<Rightarrow> (False, 0)
            | Some i \<Rightarrow> (True, i + length q)))"

record SearchOptions =
  so_filePattern :: "string option"
  so_caseSensitive :: "bool option"
  so_limit :: "int option"

text \<open>
  The file-pattern filter of one file.  \<open>compileRegExp\<close> stands for the \<open>RegExp\<close>
  constructor followed by \<open>test\<close> on a pattern without flags: \<open>None\<close> when the pattern
  does not compile (the constructor throws).  An empty pattern is falsy and filters
  nothing.
\<close>

definition filterFile ::
    "(string \<Rightarrow> (string \<Rightarrow> bool) option) \<Rightarrow> string option \<Rightarrow> string \<Rightarrow> error + bool" where
  "filterFile compileRegExp filePattern filePath =
     (case filePattern of
        None \<Rightarrow> Inr True
      | Some p \<Rightarrow>
          if p = [] then Inr True
          else (case compileRegExp p of
                  None \<Rightarrow> Inl (SyntaxError p)
                | Some test \<Rightarrow> Inr (test filePath)))"

text \<open>
  The inner loop over the lines of one file, from index \<open>i\<close>.  It returns whether the
  limit was reached (the early \<open>return\<close>), the results and the regular expression's
  \<open>lastIndex\<close>.
\<close>

fun searchLines ::
    "bool \<Rightarrow> string \<Rightarrow> int \<Rightarrow> string \<Rightarrow> nat \<Rightarrow> string list \<Rightarrow> SearchResult list \<Rightarrow> nat
      \<Rightarrow> bool \<times> SearchResult list \<times> nat" where
  "searchLines ic q limit filePath i [] results lastIndex = (False, results, lastIndex)"
| "searchLines ic q limit filePath i (l # ls) results lastIndex =
     (let (matched, lastIndex') = regexTest ic q lastIndex l in
      if matched then
        (let results' = results @
               [\<lparr>sr_file = filePath, sr_line = i + 1, sr_content = trim l,
                 sr_matchType = Exact, sr_score = 1\<rparr>]
         in if int (length results') \<ge> limit then (True, results', lastIndex')
            else searchLines ic q limit filePath (i + 1) ls results' lastIndex')
      else searchLines ic q limit filePath (i + 1) ls results lastIndex')"

text \<open>The outer loop over \<open>index.files\<close>, in insertion order.\<close>

fun searchFiles ::
    "(string \<Rightarrow> (string \<Rightarrow> bool) option) \<Rightarrow> string option \<Rightarrow> bool \<Rightarrow> string \<Rightarrow> int
      \<Rightarrow> (string \<times> FileContent) list \<Rightarrow> SearchResult list \<Rightarrow> nat \<Rightarrow> error + SearchResult list" where
  "searchFiles rx fp ic q limit [] results lastIndex = Inr results"
| "searchFiles rx fp ic q limit ((filePath, fileContent) # rest) results lastIndex =
     (case filterFile rx fp filePath of
        Inl e \<Rightarrow> Inl e
      | Inr False \<Rightarrow> searchFiles rx fp ic q limit rest results lastIndex
      | Inr True \<Rightarrow>
          (let (done, results', lastIndex') =
                 searchLines ic q limit filePath 0 (splitOn newline (fc_content fileContent))
                   results lastIndex
           in if done then Inr results'
              else searchFiles rx fp ic q limit rest results' lastIndex'))"

definition searchCode ::
    "(string \<Rightarrow> (string \<Rightarrow> bool) option) \<Rightarrow> Store \<Rightarrow> string \<Rightarrow> string \<Rightarrow> SearchOptions
      \<Rightarrow> error + SearchResult list" where
  "searchCode compileRegExp st repoId query options =
     (case map_of (indexStore st) repoId of
        None \<Rightarrow> Inl (Error (''Repository '' @ repoId @ '' not indexed''))
      | Some index \<Rightarrow>
          (let limit = (case so_limit options of
                          None \<Rightarrow> 50
                        | Some l \<Rightarrow> if l = 0 then 50 else l);
               ignoreCase = (so_caseSensitive options \<noteq> Some True)
           in case literalOfPattern (escapeRegex query) of
                None \<Rightarrow> Inl (SyntaxError (escapeRegex query))
              | Some q \<Rightarrow>
                  searchFiles compileRegExp (so_filePattern options) ignoreCase q limit
                    (ix_files index) [] 0))"

section \<open>The tool handlers (search.tools.ts, schemas)\<close>

record RepositoryRef =
  ref_remote :: string
  ref_owner :: string
  ref_repository :: string
  ref_branch :: string

definition refRepoId :: "RepositoryRef \<Rightarrow> string" where
  "refRepoId repo =
     generateRepoId (ref_remote repo) (ref_owner repo) (ref_repository repo) (ref_branch repo)"


text \<open>
  \<open>SearchCodeInputSchema.limit\<close>: an integer from 1 to 100, 20 when absent; anything
  else is rejected before the handler runs.
\<close>

definition parseSearchLimit :: "int option \<Rightarrow> int option" where
  "parseSearchLimit requested =
     (case requested of
        None \<Rightarrow> Some 20
      | Some n \<Rightarrow> if 1 \<le> n \<and> n \<le> 100 then Some n else None)"

record SearchHit =
  hit_repoId :: string
  hit_repoName :: string
  hit_file :: string
  hit_line :: nat
  hit_content :: string

record SearchCodeInput =
  sci_query :: string
  sci_repositories :: "RepositoryRef list"
  sci_file_pattern :: "string option"
  sci_case_sensitive :: bool
  sci_limit :: int

text \<open>What the \<open>git_search_code\<close> handler keeps of one search result.\<close>

definition toSearchHit :: "RepositoryRef \<Rightarrow> string \<Rightarrow> SearchResult \<Rightarrow> SearchHit" where
  "toSearchHit repo repoId result =
     \<lparr>hit_repoId = repoId, hit_repoName = ref_owner repo @ ''/'' @ ref_repository repo,
      hit_file = sr_file result, hit_line = sr_line result, hit_content = sr_content result\<rparr>"

text \<open>The loop over the requested repositories in the \<open>git_search_code\<close> handler.\<close>

fun searchRepositories ::
    "(string \<Rightarrow> (string \<Rightarrow> bool) option) \<Rightarrow> Store \<Rightarrow> SearchCodeInput \<Rightarrow> RepositoryRef list
      \<Rightarrow> SearchHit list \<Rightarrow> error + SearchHit list" where
  "searchRepositories rx st params [] allResults = Inr allResults"
| "searchRepositories rx st params (repo # repos) allResults =
     (let repoId = refRepoId repo in
      case getRepository st repoId of
        None \<Rightarrow> searchRepositories rx st params repos allResults
      | Some repoData \<Rightarrow>
          if repo_status repoData \<noteq> Ready
          then searchRepositories rx st params repos allResults
          else (case searchCode rx st repoId (sci_query params)
                       \<lparr>so_filePattern = sci_file_pattern params,
                        so_caseSensitive = Some (sci_case_sensitive params),
                        so_limit = Some (sci_limit params)\<rparr> of
                  Inl e \<Rightarrow> Inl e
                | Inr results \<Rightarrow>
                    searchRepositories rx st params repos
                      (allResults @ map (toSearchHit repo repoId) results)))"







record QueryHit =
  qh_repoId :: string
  qh_file :: string
  qh_line :: nat
  qh_content :: string





text \<open>What the \<open>git_query_codebase\<close> handler keeps of one search result.\<close>

definition toQueryHit :: "string \<Rightarrow> SearchResult \<Rightarrow> QueryHit" where
  "toQueryHit repoId result =
     \<lparr>qh_repoId = repoId, qh_file = sr_file result, qh_line = sr_line result,
      qh_content = sr_content result\<rparr>"

text \<open>One keyword's search in the handler: the limit is the constant 10.\<close>

definition keywordSearch ::
    "(string \<Rightarrow> (string \<Rightarrow> bool) option) \<Rightarrow> Store \<Rightarrow> string \<Rightarrow> string \<Rightarrow> error + SearchResult list" where
  "keywordSearch rx st repoId keyword =
     searchCode rx st repoId keyword
       \<lparr>so_filePattern = None, so_caseSensitive = None, so_limit = Some 10\<rparr>"

text \<open>The loop over the keywords, for one repository.\<close>

fun queryKeywords ::
    "(string \<Rightarrow> (string \<Rightarrow> bool) option) \<Rightarrow> Store \<Rightarrow> string \<Rightarrow> string list \<Rightarrow> QueryHit list
      \<Rightarrow> error + QueryHit list" where
  "queryKeywords rx st repoId [] allResults = Inr allResults"
| "queryKeywords rx st repoId (keyword # keywords) allResults =
     (case keywordSearch rx st repoId keyword of
        Inl e \<Rightarrow> Inl e
      | Inr results \<Rightarrow>
          queryKeywords rx st repoId keywords
            (allResults @ map (toQueryHit repoId) results))"

text \<open>The loop over the requested repositories.\<close>

fun queryRepositories ::
    "(string \<Rightarrow> (string \<Rightarrow> bool) option) \<Rightarrow> Store \<Rightarrow> string list \<Rightarrow> RepositoryRef list
      \<Rightarrow> QueryHit list \<Rightarrow> error + QueryHit list" where
  "queryRepositories rx st keywords [] allResults = Inr allResults"
| "queryRepositories rx st keywords (repo # repos) allResults =
     (let repoId = refRepoId repo in
      case getRepository st repoId of
        None \<Rightarrow> queryRepositories rx st keywords repos allResults
      | Some repoData \<Rightarrow>
          if repo_status repoData \<noteq> Ready
          then queryRepositories rx st keywords repos allResults
          else (case queryKeywords rx st repoId keywords allResults of
                  Inl e \<Rightarrow> Inl e
                | Inr allResults' \<Rightarrow> queryRepositories rx st keywords repos allResults'))"


section \<open>Function extraction (git.service.ts)\<close>

text \<open>The loop variables of \<open>extractFunctions\<close>.\<close>

record ExtractState =
  es_functions :: "FunctionInfo list"
  es_currentFunction :: "FunctionInfo option"
  es_braceCount :: int
  es_inFunction :: bool

definition initialExtractState :: ExtractState where
  "initialExtractState =
     \<lparr>es_functions = [], es_currentFunction = None, es_braceCount = 0, es_inFunction = False\<rparr>"

text \<open>
  The first half of one iteration, at line index \<open>i\<close> (the line's number is \<open>i + 1\<close>):
  the check for a function start.  \<open>matchDecl\<close> gives, for the trimmed line, the name
  and raw parameter text captured by the first declaration pattern that matches.
\<close>

definition checkFunctionStart ::
    "(string \<Rightarrow> (string \<times> string) option) \<Rightarrow> string \<Rightarrow> nat \<Rightarrow> string \<Rightarrow> ExtractState
      \<Rightarrow> ExtractState" where
  "checkFunctionStart matchDecl filePath i line st =
     (case matchDecl (trim line) of
        None \<Rightarrow> st
      | Some (name, params) \<Rightarrow>
          \<lparr>es_functions =
             (case es_currentFunction st of
                Some currentFunction \<Rightarrow>
                  if es_inFunction st
                  then es_functions st @ [currentFunction\<lparr>fn_endLine := i\<rparr>]
                  else es_functions st
              | None \<Rightarrow> es_functions st),
           es_currentFunction =
             Some \<lparr>fn_name = name, fn_file = filePath, fn_startLine = i + 1, fn_endLine = i + 1,
                   fn_signature = name @ ''('' @ params @ '')'', fn_calls = [], fn_calledBy = []\<rparr>,
           es_braceCount = 0,
           es_inFunction = True\<rparr>)"

text \<open>The second half of the iteration: brace tracking on the untrimmed line.\<close>

definition trackBraces :: "nat \<Rightarrow> string \<Rightarrow> ExtractState \<Rightarrow> ExtractState" where
  "trackBraces i line st =
     (case es_currentFunction st of
        None \<Rightarrow> st
      | Some currentFunction \<Rightarrow>
          if \<not> es_inFunction st then st
          else
            (let braceCount = es_braceCount st + int (count_list line (CHR ''{''))
                                - int (count_list line (CHR ''}''))
             in if braceCount \<le> 0 \<and> CHR ''}'' \<in> set line
                then \<lparr>es_functions = es_functions st @ [currentFunction\<lparr>fn_endLine := i + 1\<rparr>],
                      es_currentFunction = None, es_braceCount = braceCount,
                      es_inFunction = False\<rparr>
                else st\<lparr>es_braceCount := braceCount\<rparr>))"

fun extractLoop ::
    "(string \<Rightarrow> (string \<times> string) option) \<Rightarrow> string \<Rightarrow> nat \<Rightarrow> string list \<Rightarrow> ExtractState
      \<Rightarrow> ExtractState" where
  "extractLoop matchDecl filePath i [] st = st"
| "extractLoop matchDecl filePath i (line # rest) st =
     extractLoop matchDecl filePath (i + 1) rest
       (trackBraces i line (checkFunctionStart matchDecl filePath i line st))"

text \<open>The whole function, for any way of recognising a declaration.\<close>

definition extractFunctionsWith ::
    "(string \<Rightarrow> (string \<times> string) option) \<Rightarrow> string \<Rightarrow> string \<Rightarrow> FunctionInfo list" where
  "extractFunctionsWith matchDecl content filePath =
     (let lines = splitOn newline content;
          st = extractLoop matchDecl filePath 0 lines initialExtractState
      in case es_currentFunction st of
           None \<Rightarrow> es_functions st
         | Some currentFunction \<Rightarrow>
             if es_inFunction st
             then es_functions st @ [currentFunction\<lparr>fn_endLine := length lines\<rparr>]
             else es_functions st)"

section \<open>Regular expressions of the lexical extractor\<close>

text \<open>
  The patterns of the extractor use literals, character classes, greedy and lazy
  repetition of one class, optional groups, alternatives, capture groups and the start
  anchor.  \<open>matchRegex\<close> lists the ways a pattern matches at a position, in the order
  in which the backtracking matcher of the runtime tries them; the first is the match
  the runtime reports.  A state is the position, the rest of the input and the captures
  made so far.
\<close>

datatype charClass = Word | Space | NotSpace | AnyChar | OneOf "char list" | NoneOf "char list"

fun inClass :: "charClass \<Rightarrow> char \<Rightarrow> bool" where
  "inClass Word c = isWordChar c"
| "inClass Space c = isSpace c"
| "inClass NotSpace c = (\<not> isSpace c)"
| "inClass AnyChar c = (c \<noteq> CHR 0x0A \<and> c \<noteq> CHR 0x0D)"
| "inClass (OneOf cs) c = (c \<in> set cs)"
| "inClass (NoneOf cs) c = (c \<notin> set cs)"

datatype regex =
    Lit string
  | Class charClass
  | Star charClass
  | Plus charClass
  | LazyStar charClass
  | Opt regex
  | Alt regex regex
  | Seq regex regex
  | Group regex
  | StartAnchor

type_synonym matchState = "nat \<times> string \<times> string list"

fun matchRegex :: "regex \<Rightarrow> matchState \<Rightarrow> matchState list" where
  "matchRegex (Lit w) (p, s, caps) =
     (if take (length w) s = w then [(p + length w, drop (length w) s, caps)] else [])"
| "matchRegex (Class c) (p, s, caps) =
     (case s of [] \<Rightarrow> [] | x # xs \<Rightarrow> if inClass c x then [(p + 1, xs, caps)] else [])"
| "matchRegex (Star c) (p, s, caps) =
     map (\<lambda>n. (p + n, drop n s, caps)) (rev [0 ..< Suc (length (takeWhile (inClass c) s))])"
| "matchRegex (Plus c) (p, s, caps) =
     map (\<lambda>n. (p + n, drop n s, caps)) (rev [1 ..< Suc (length (takeWhile (inClass c) s))])"
| "matchRegex (LazyStar c) (p, s, caps) =
     map (\<lambda>n. (p + n, drop n s, caps)) [0 ..< Suc (length (takeWhile (inClass c) s))]"
| "matchRegex (Opt r) st = matchRegex r st @ [st]"
| "matchRegex (Alt r1 r2) st = matchRegex r1 st @ matchRegex r2 st"
| "matchRegex (Seq r1 r2) st = concat (map (matchRegex r2) (matchRegex r1 st))"
| "matchRegex (Group r) (p, s, caps) =
     map (\<lambda>(p', s', caps'). (p', s', caps' @ [take (p' - p) s])) (matchRegex r (p, s, caps))"
| "matchRegex StartAnchor (p, s, caps) = (if p = 0 then [(p, s, caps)] else [])"

text \<open>
  \<open>s.match(pattern)\<close> for a pattern without the \<open>g\<close> flag: the leftmost match, as its
  start index, end index and captures (\<open>match[1]\<close> first).
\<close>

fun firstMatch :: "regex \<Rightarrow> string \<Rightarrow> nat list \<Rightarrow> (nat \<times> nat \<times> string list) option" where
  "firstMatch r s [] = None"
| "firstMatch r s (k # ks) =
     (case matchRegex r (k, drop k s, []) of
        [] \<Rightarrow> firstMatch r s ks
      | (e, rest, caps) # others \<Rightarrow> Some (k, e, caps))"

definition regexExec :: "regex \<Rightarrow> string \<Rightarrow> (nat \<times> nat \<times> string list) option" where
  "regexExec r s = firstMatch r s [0 ..< Suc (length s)]"

text \<open>\<open>match[1]\<close> when the pattern matched and the capture is not empty.\<close>

definition capture1 :: "regex \<Rightarrow> string \<Rightarrow> string option" where
  "capture1 r s =
     (case regexExec r s of
        Some (k, e, name # rest) \<Rightarrow> if name = [] then None else Some name
      | _ \<Rightarrow> None)"

fun seq :: "regex list \<Rightarrow> regex" where
  "seq [] = Lit []"
| "seq [r] = r"
| "seq (r # rs) = Seq r (seq rs)"

fun oneOfWords :: "string list \<Rightarrow> regex" where
  "oneOfWords [] = Lit []"
| "oneOfWords [w] = Lit w"
| "oneOfWords (w # ws) = Alt (Lit w) (oneOfWords ws)"

text \<open>\<open>(?:async\s+)?\<close> and its like.\<close>

definition optWord :: "string \<Rightarrow> regex" where
  "optWord w = Opt (Seq (Lit w) (Plus Space))"

definition quotes :: "char list" where
  "quotes = [CHR 0x27, CHR 0x22]"

subsection \<open>extractFunctions\<close>

definition functionPatterns :: "regex list" where
  "functionPatterns =
     [seq [StartAnchor, optWord ''export'', optWord ''async'', Lit ''function'', Plus Space,
           Group (Plus Word), Star Space, Lit ''('', Group (Star (NoneOf '')'')), Lit '')''],
      seq [StartAnchor, optWord ''export'', oneOfWords [''const'', ''let'', ''var''], Plus Space,
           Group (Plus Word), Star Space, Lit ''='', Star Space, optWord ''async'',
           Lit ''('', Group (Star (NoneOf '')'')), Lit '')'', Star Space, Lit ''=>''],
      seq [StartAnchor, optWord ''export'', oneOfWords [''const'', ''let'', ''var''], Plus Space,
           Group (Plus Word), Star Space, Lit ''='', Star Space, optWord ''async'',
           Lit ''function'', Star Space, Lit ''('', Group (Star (NoneOf '')'')), Lit '')''],
      seq [StartAnchor, Star Space, Opt (oneOfWords [''public'', ''private'', ''protected'']),
           Star Space, optWord ''static'', optWord ''async'',
           Group (Plus Word), Star Space, Lit ''('', Group (Star (NoneOf '')'')), Lit '')'',
           Star Space, Opt (seq [Lit '':'', Star Space, Plus Word]), Star Space, Lit ''{'']]"

text \<open>
  The loop over the patterns on one trimmed line: the first pattern that matches with a
  name gives the name and the parameter text (\<open>match[2] || ""\<close>).
\<close>

fun matchFunctionStart :: "regex list \<Rightarrow> string \<Rightarrow> (string \<times> string) option" where
  "matchFunctionStart [] trimmedLine = None"
| "matchFunctionStart (pattern # patterns) trimmedLine =
     (case regexExec pattern trimmedLine of
        Some (k, e, name # rest) \<Rightarrow>
          if name = [] then matchFunctionStart patterns trimmedLine
          else Some (name, (case rest of [] \<Rightarrow> [] | params # others \<Rightarrow> params))
      | _ \<Rightarrow> matchFunctionStart patterns trimmedLine)"

definition extractFunctions :: "string \<Rightarrow> string \<Rightarrow> string \<Rightarrow> FunctionInfo list" where
  "extractFunctions content filePath language =
     extractFunctionsWith (matchFunctionStart functionPatterns) content filePath"

subsection \<open>extractFunctionNames, extractImports, extractExports\<close>

text \<open>\<open>[...new Set(xs)]\<close>: the first occurrence of each element, in order.\<close>

definition uniq :: "string list \<Rightarrow> string list" where
  "uniq xs = foldl (\<lambda>acc x. if x \<in> set acc then acc else acc @ [x]) [] xs"

definition functionNamePatterns :: "regex list" where
  "functionNamePatterns =
     [seq [Lit ''function'', Plus Space, Group (Plus Word), Star Space, Lit ''(''],
      seq [Group (Plus Word), Star Space, Lit ''='', Star Space, optWord ''async'', Lit ''function''],
      seq [Group (Plus Word), Star Space, Lit ''='', Star Space, optWord ''async'',
           Lit ''('', Star (NoneOf '')''), Lit '')'', Star Space, Lit ''=>''],
      seq [optWord ''async'', Group (Plus Word), Star Space, Lit ''('', Star (NoneOf '')''),
           Lit '')'', Star Space, Lit ''{''],
      seq [Lit ''def'', Plus Space, Group (Plus Word), Star Space, Lit ''(''],
      seq [Lit ''func'', Plus Space, Group (Plus Word), Star Space, Lit ''(''],
      seq [Lit ''fn'', Plus Space, Group (Plus Word), Star Space, Lit ''(''],
      seq [Lit ''public'', Plus Space, optWord ''static'', Opt (Seq (Plus Word) (Plus Space)),
           Group (Plus Word), Star Space, Lit ''('']]"

definition controlKeywords :: "string list" where
  "controlKeywords = [''if'', ''for'', ''while'', ''switch'', ''catch'']"

definition extractFunctionNames :: "string \<Rightarrow> string \<Rightarrow> string list" where
  "extractFunctionNames content language =
     uniq (concat (map (\<lambda>line.
       concat (map (\<lambda>pattern.
         (case capture1 pattern line of
            Some name \<Rightarrow> if name \<in> set controlKeywords then [] else [name]
          | None \<Rightarrow> [])) functionNamePatterns)) (splitOn newline content)))"

definition importPatterns :: "regex list" where
  "importPatterns =
     [seq [Lit ''import'', Plus Space, LazyStar AnyChar, Lit ''from'', Plus Space,
           Class (OneOf quotes), Group (Plus (NoneOf quotes)), Class (OneOf quotes)],
      seq [Lit ''import'', Plus Space, Class (OneOf quotes), Group (Plus (NoneOf quotes)),
           Class (OneOf quotes)],
      seq [Lit ''require'', Star Space, Lit ''('', Star Space, Class (OneOf quotes),
           Group (Plus (NoneOf quotes)), Class (OneOf quotes), Star Space, Lit '')''],
      seq [Lit ''from'', Plus Space, Group (Plus NotSpace), Plus Space, Lit ''import''],
      seq [Lit ''import'', Plus Space, Lit [CHR 0x22], Group (Plus (NoneOf [CHR 0x22])),
           Lit [CHR 0x22]],
      seq [Lit ''use'', Plus Space, Group (Plus NotSpace)]]"

definition extractImports :: "string \<Rightarrow> string \<Rightarrow> string list" where
  "extractImports content language =
     uniq (concat (map (\<lambda>line.
       concat (map (\<lambda>pattern.
         (case capture1 pattern line of Some target \<Rightarrow> [target] | None \<Rightarrow> []))
         importPatterns)) (splitOn newline content)))"

definition exportPatterns :: "regex list" where
  "exportPatterns =
     [seq [Lit ''export'', Plus Space, optWord ''default'',
           Alt (oneOfWords [''const'', ''let'', ''var'', ''function'', ''class''])
               (seq [Lit ''async'', Plus Space, Lit ''function'']),
           Plus Space, Group (Plus Word)],
      seq [Lit ''export'', Plus Space, Lit ''{'', Star Space, Group (Plus (NoneOf ''}'')),
           Star Space, Lit ''}''],
      seq [Lit ''module.exports'', Star Space, Lit ''='', Star Space, Group (Plus Word)],
      seq [Lit ''exports.'', Group (Plus Word), Star Space, Lit ''='']]"

text \<open>\<open>s.split(/\s+as\s+/)[0]\<close>: the text before the first \<open>as\<close> standing between white space.\<close>

definition beforeAs :: "string \<Rightarrow> string" where
  "beforeAs s =
     (case regexExec (seq [Plus Space, Lit ''as'', Plus Space]) s of
        None \<Rightarrow> s
      | Some (k, e, caps) \<Rightarrow> take k s)"

definition exportItems :: "string \<Rightarrow> string list" where
  "exportItems captured =
     filter (\<lambda>item. item \<noteq> []) (map (\<lambda>s. beforeAs (trim s)) (splitOn (CHR '','') captured))"

definition extractExports :: "string \<Rightarrow> string \<Rightarrow> string list" where
  "extractExports content language =
     uniq (concat (map (\<lambda>line.
       concat (map (\<lambda>pattern.
         (case capture1 pattern line of Some captured \<Rightarrow> exportItems captured | None \<Rightarrow> []))
         exportPatterns)) (splitOn newline content)))"

section \<open>Constants (constants.ts)\<close>

definition CODE_EXTENSIONS :: "string list" where
  "CODE_EXTENSIONS =
     [''.ts'', ''.tsx'', ''.js'', ''.jsx'', ''.mjs'', ''.cjs'',
      ''.py'', ''.pyw'',
      ''.java'', ''.kt'', ''.scala'',
      ''.go'',
      ''.rs'',
      ''.c'', ''.cpp'', ''.cc'', ''.h'', ''.hpp'',
      ''.cs'',
      ''.rb'',
      ''.php'',
      ''.swift'',
      ''.vue'', ''.svelte'',
      ''.sql'',
      ''.sh'', ''.bash'', ''.zsh'',
      ''.yaml'', ''.yml'',
      ''.json'',
      ''.xml'',
      ''.html'', ''.css'', ''.scss'', ''.sass'', ''.less'',
      ''.md'', ''.mdx'',
      ''.graphql'', ''.gql'',
      ''.proto'',
      ''.tf'', ''.tfvars'']"

definition IGNORE_PATTERNS :: "string list" where
  "IGNORE_PATTERNS =
     [''node_modules'', ''.git'', ''.svn'', ''.hg'', ''dist'', ''build'', ''out'', ''.next'',
      ''.nuxt'', ''__pycache__'', ''.pytest_cache'', ''venv'', ''.venv'', ''env'', ''.env'',
      ''target'', ''bin'', ''obj'', ''.idea'', ''.vscode'', ''*.min.js'', ''*.min.css'',
      ''*.map'', ''*.lock'', ''package-lock.json'', ''yarn.lock'', ''pnpm-lock.yaml'', ''*.log'']"

definition LANGUAGE_MAP :: "(string \<times> string) list" where
  "LANGUAGE_MAP =
     [(''.ts'', ''typescript''), (''.tsx'', ''typescript''), (''.js'', ''javascript''),
      (''.jsx'', ''javascript''), (''.mjs'', ''javascript''), (''.cjs'', ''javascript''),
      (''.py'', ''python''), (''.pyw'', ''python''), (''.java'', ''java''), (''.kt'', ''kotlin''),
      (''.scala'', ''scala''), (''.go'', ''go''), (''.rs'', ''rust''), (''.c'', ''c''),
      (''.cpp'', ''cpp''), (''.cc'', ''cpp''), (''.h'', ''c''), (''.hpp'', ''cpp''),
      (''.cs'', ''csharp''), (''.rb'', ''ruby''), (''.php'', ''php''), (''.swift'', ''swift''),
      (''.vue'', ''vue''), (''.svelte'', ''svelte''), (''.sql'', ''sql''), (''.sh'', ''bash''),
      (''.bash'', ''bash''), (''.zsh'', ''zsh''), (''.yaml'', ''yaml''), (''.yml'', ''yaml''),
      (''.json'', ''json''), (''.xml'', ''xml''), (''.html'', ''html''), (''.css'', ''css''),
      (''.scss'', ''scss''), (''.sass'', ''sass''), (''.less'', ''less''), (''.md'', ''markdown''),
      (''.mdx'', ''mdx''), (''.graphql'', ''graphql''), (''.gql'', ''graphql''),
      (''.proto'', ''protobuf''), (''.tf'', ''terraform''), (''.tfvars'', ''terraform'')]"

section \<open>Runtime and library operations used by the indexing pass\<close>

text \<open>
  \<open>path.extname\<close> (POSIX): the text from the last dot of the last path segment, empty
  when that segment has no dot, starts with its only dot, or is \<open>..\<close>.
\<close>

definition basename :: "string \<Rightarrow> string" where
  "basename p =
     rev (takeWhile (\<lambda>c. c \<noteq> CHR ''/'') (dropWhile (\<lambda>c. c = CHR ''/'') (rev p)))"

definition extname :: "string \<Rightarrow> string" where
  "extname p =
     (let base = basename p;
          ext = rev (takeWhile (\<lambda>c. c \<noteq> CHR ''.'') (rev base))
      in if CHR ''.'' \<in> set base \<and> length ext + 1 \<noteq> length base \<and> base \<noteq> ''..''
         then CHR ''.'' # ext else [])"

text \<open>
  The \<open>ignore\<close> package is a dependency of the repository, not part of it.  Its rule
  set is modelled from its documented behaviour, which is that of a \<open>.gitignore\<close>
  file: rules are kept in the order they were added; a pattern starting with \<open>!\<close>
  negates; blank lines and \<open>#\<close> comments add no rule; for one path the last rule whose
  pattern matches decides; and a path below an ignored directory is ignored whatever
  the rules say about the path itself.  How one glob pattern matches one path is left
  to the parameter \<open>ruleMatches\<close>.
\<close>

record IgnoreRule =
  ir_negative :: bool
  ir_pattern :: string

definition createRule :: "string \<Rightarrow> IgnoreRule" where
  "createRule pattern =
     (case pattern of
        [] \<Rightarrow> \<lparr>ir_negative = False, ir_pattern = pattern\<rparr>
      | c # rest \<Rightarrow>
          if c = CHR ''!'' then \<lparr>ir_negative = True, ir_pattern = rest\<rparr>
          else \<lparr>ir_negative = False, ir_pattern = pattern\<rparr>)"

definition checkPattern :: "string \<Rightarrow> bool" where
  "checkPattern pattern =
     (\<not> list_all isSpace pattern \<and> take 1 pattern \<noteq> ''#'')"

text \<open>\<open>ig.add(patterns)\<close> for a list of patterns, and for the text of an ignore file.\<close>

definition addPatterns :: "string list \<Rightarrow> IgnoreRule list \<Rightarrow> IgnoreRule list" where
  "addPatterns patterns rules = rules @ map createRule (filter checkPattern patterns)"

definition stripCR :: "string \<Rightarrow> string" where
  "stripCR l = (if l \<noteq> [] \<and> last l = CHR 0x0D then butlast l else l)"

definition addIgnoreFile :: "string \<Rightarrow> IgnoreRule list \<Rightarrow> IgnoreRule list" where
  "addIgnoreFile content rules = addPatterns (map stripCR (splitOn newline content)) rules"

definition testOne :: "(string \<Rightarrow> string \<Rightarrow> bool) \<Rightarrow> IgnoreRule list \<Rightarrow> string \<Rightarrow> bool" where
  "testOne ruleMatches rules p =
     foldl (\<lambda>ignored rule. if ruleMatches (ir_pattern rule) p then \<not> ir_negative rule else ignored)
       False rules"

text \<open>The parent directories of a path, each with its trailing slash, then the path.\<close>

definition pathPrefixes :: "string \<Rightarrow> string list" where
  "pathPrefixes p =
     map (\<lambda>i. take (Suc i) p) (filter (\<lambda>i. p ! i = CHR ''/'') [0 ..< length p]) @ [p]"

definition ignores :: "(string \<Rightarrow> string \<Rightarrow> bool) \<Rightarrow> IgnoreRule list \<Rightarrow> string \<Rightarrow> bool" where
  "ignores ruleMatches rules p = list_ex (testOne ruleMatches rules) (pathPrefixes p)"

text \<open>
  What the file system gives for one clone: the text of \<open>.gitignore\<close> if it can be read,
  the result of \<open>glob("**/*", {nodir, dot: false})\<close>, and \<open>fs.readFile\<close> (\<open>None\<close> when
  the read fails).
\<close>

record RepoFiles =
  rf_gitignore :: "string option"
  rf_allFiles :: "string list"
  rf_readFile :: "string \<Rightarrow> string option"

section \<open>The indexing pass (git.service.ts)\<close>

definition ignoreRules :: "RepoFiles \<Rightarrow> IgnoreRule list" where
  "ignoreRules files =
     addPatterns IGNORE_PATTERNS
       (case rf_gitignore files of
          None \<Rightarrow> []
        | Some gitignoreContent \<Rightarrow> addIgnoreFile gitignoreContent [])"

definition codeFiles :: "(string \<Rightarrow> string \<Rightarrow> bool) \<Rightarrow> RepoFiles \<Rightarrow> string list" where
  "codeFiles ruleMatches files =
     filter (\<lambda>file. map toLowerCase (extname file) \<in> set CODE_EXTENSIONS
                     \<and> \<not> ignores ruleMatches (ignoreRules files) file)
       (rf_allFiles files)"

definition makeFileContent :: "string \<Rightarrow> string \<Rightarrow> FileContent" where
  "makeFileContent filePath content =
     (let ext = map toLowerCase (extname filePath);
          language = (case map_of LANGUAGE_MAP ext of Some l \<Rightarrow> l | None \<Rightarrow> ''unknown'')
      in \<lparr>fc_path = filePath, fc_content = content, fc_language = language,
          fc_lines = length (splitOn newline content),
          fc_functions = extractFunctionNames content language,
          fc_imports = extractImports content language,
          fc_exports = extractExports content language\<rparr>)"

text \<open>The four tables and the counter that the loop over the code files fills.\<close>

record IndexTables =
  it_files :: "(string \<times> FileContent) list"
  it_functions :: "(string \<times> FunctionInfo) list"
  it_imports :: "(string \<times> string list) list"
  it_exports :: "(string \<times> string list) list"
  it_processed :: nat

definition emptyTables :: IndexTables where
  "emptyTables =
     \<lparr>it_files = [], it_functions = [], it_imports = [], it_exports = [], it_processed = 0\<rparr>"

definition processFile :: "RepoFiles \<Rightarrow> string \<Rightarrow> IndexTables \<Rightarrow> IndexTables" where
  "processFile files filePath t =
     (case rf_readFile files filePath of
        None \<Rightarrow> t
      | Some content \<Rightarrow>
          (let fileContent = makeFileContent filePath content;
               fileFunctions = extractFunctions content filePath (fc_language fileContent)
           in \<lparr>it_files = AList.update filePath fileContent (it_files t),
               it_functions =
                 foldl (\<lambda>m f. AList.update (filePath @ '':'' @ fn_name f) f m)
                   (it_functions t) fileFunctions,
               it_imports = AList.update filePath (fc_imports fileContent) (it_imports t),
               it_exports = AList.update filePath (fc_exports fileContent) (it_exports t),
               it_processed = it_processed t + 1\<rparr>))"

definition indexRepository ::
    "(string \<Rightarrow> string \<Rightarrow> bool) \<Rightarrow> (string \<Rightarrow> RepoFiles) \<Rightarrow> nat \<Rightarrow> string \<Rightarrow> string \<Rightarrow> Store
      \<Rightarrow> error + RepositoryIndex \<times> Store" where
  "indexRepository ruleMatches fileSystem now repoId localPath st =
     (case getRepository st repoId of
        None \<Rightarrow> Inl (Error (''Repository '' @ repoId @ '' not found in store''))
      | Some repo \<Rightarrow>
          (let files = fileSystem localPath;
               selected = codeFiles ruleMatches files;
               t = foldl (\<lambda>t filePath. processFile files filePath t) emptyTables selected;
               repo' = repo\<lparr>repo_status := Ready, repo_totalFiles := length selected,
                            repo_filesProcessed := it_processed t, repo_indexedAt := Some now\<rparr>;
               index = \<lparr>ix_repository = repo', ix_files = it_files t,
                        ix_functions = it_functions t, ix_imports = it_imports t,
                        ix_exports = it_exports t\<rparr>
           in Inr (index,
                   \<lparr>repositoryStore = AList.update repoId repo' (repositoryStore st),
                    indexStore = AList.update repoId index (indexStore st)\<rparr>)))"

section \<open>Notions used to state the properties\<close>

text \<open>A line contains the query as a literal substring (case folded or not).\<close>

definition lineContains :: "bool \<Rightarrow> string \<Rightarrow> string \<Rightarrow> bool" where
  "lineContains ignoreCase q l = list_ex (matchesAt ignoreCase q l) [0 ..< Suc (length l)]"

text \<open>
  The results that C1 describes: one for every line that contains the query, files in
  index order and lines in order, for the files that \<open>keep\<close> lets through.
\<close>

fun expectedLines ::
    "bool \<Rightarrow> string \<Rightarrow> string \<Rightarrow> nat \<Rightarrow> string list \<Rightarrow> SearchResult list" where
  "expectedLines ic q filePath i [] = []"
| "expectedLines ic q filePath i (l # ls) =
     (if lineContains ic q l
      then [\<lparr>sr_file = filePath, sr_line = i + 1, sr_content = trim l,
              sr_matchType = Exact, sr_score = 1\<rparr>]
      else [])
     @ expectedLines ic q filePath (i + 1) ls"

definition expectedResults ::
    "(string \<Rightarrow> bool) \<Rightarrow> bool \<Rightarrow> string \<Rightarrow> (string \<times> FileContent) list
      \<Rightarrow> SearchResult list" where
  "expectedResults keep ic q files =
     concat (map (\<lambda>(filePath, fileContent).
                    if keep filePath
                    then expectedLines ic q filePath 0 (splitOn newline (fc_content fileContent))
                    else []) files)"

definition everyFile :: "string \<Rightarrow> bool" where
  "everyFile filePath = True"

text \<open>A requested repository that the handlers skip: not registered, or not ready.\<close>

definition notReady :: "Store \<Rightarrow> RepositoryRef \<Rightarrow> bool" where
  "notReady st repo =
     (case getRepository st (refRepoId repo) of
        None \<Rightarrow> True
      | Some repoData \<Rightarrow> repo_status repoData \<noteq> Ready)"







section \<open>Example inputs\<close>

text \<open>
  The store of a fresh process, the repository record that the \<open>git_index_repository\<close>
  handler creates for \<open>github\<close>, \<open>acme/demo\<close>, branch \<open>main\<close>, and a clone that holds one
  file.  \<open>exampleStore path content\<close> is the store after the indexing pass over it.
\<close>

definition emptyStore :: Store where
  "emptyStore = \<lparr>repositoryStore = [], indexStore = []\<rparr>"

definition exampleRef :: RepositoryRef where
  "exampleRef =
     \<lparr>ref_remote = ''github'', ref_owner = ''acme'', ref_repository = ''demo'', ref_branch = ''main''\<rparr>"

definition exampleRepoId :: string where
  "exampleRepoId = refRepoId exampleRef"

definition exampleLocalPath :: string where
  "exampleLocalPath = ''/tmp/mcp-repos/acme/demo''"

definition exampleRepository :: Repository where
  "exampleRepository =
     \<lparr>repo_id = exampleRepoId, repo_remote = ''github'', repo_owner = ''acme'',
      repo_name = ''demo'', repo_branch = ''main'', repo_localPath = exampleLocalPath,
      repo_status = Pending, repo_filesProcessed = 0, repo_totalFiles = 0,
      repo_indexedAt = None, repo_error = None\<rparr>"

definition pendingStore :: Store where
  "pendingStore = setRepository exampleRepoId exampleRepository emptyStore"

definition oneFile :: "string \<Rightarrow> string \<Rightarrow> string \<Rightarrow> RepoFiles" where
  "oneFile path content localPath =
     \<lparr>rf_gitignore = None, rf_allFiles = [path],
      rf_readFile = (\<lambda>p. if p = path then Some content else None)\<rparr>"

text \<open>
  A matcher for the patterns that are plain names: such a pattern matches a file or a
  directory of that name at any depth.
\<close>

definition nameMatches :: "string \<Rightarrow> string \<Rightarrow> bool" where
  "nameMatches pattern p = (basename p = pattern)"

definition exampleIndexing :: "string \<Rightarrow> string \<Rightarrow> error + RepositoryIndex \<times> Store" where
  "exampleIndexing path content =
     indexRepository nameMatches (oneFile path content) 0 exampleRepoId exampleLocalPath pendingStore"

definition exampleStore :: "string \<Rightarrow> string \<Rightarrow> Store" where
  "exampleStore path content =
     (case exampleIndexing path content of Inr (index, st) \<Rightarrow> st | Inl e \<Rightarrow> pendingStore)"





definition noOptions :: SearchOptions where
  "noOptions = \<lparr>so_filePattern = None, so_caseSensitive = None, so_limit = None\<rparr>"

text \<open>The file of Scenario A, and a file with two calls of \<open>add\<close>.\<close>

definition scenarioContent :: string where
  "scenarioContent = ''export const add = (a, b) => a + b''"

definition twoCalls :: string where
  "twoCalls = ''  add(1, 2)'' @ [newline] @ ''add(3, 4)''"

definition noRegExp :: "string \<Rightarrow> (string \<Rightarrow> bool) option" where
  "noRegExp pattern = None"

text \<open>
  Two declarations on consecutive lines, the state of \<open>extractFunctions\<close> after the first
  of them, and a line that holds both keywords of Scenario C.
\<close>

definition twoFunctions :: string where
  "twoFunctions = ''function f() {'' @ [newline] @ ''function g() {''"

definition afterFirstLine :: ExtractState where
  "afterFirstLine =
     trackBraces 0 ''function f() {''
       (checkFunctionStart (matchFunctionStart functionPatterns) ''main.ts'' 0 ''function f() {''
          initialExtractState)"


text \<open>The bounds of a function record in a file of \<open>n\<close> lines, and the loop invariant.\<close>

definition spanOk :: "nat \<Rightarrow> FunctionInfo \<Rightarrow> bool" where
  "spanOk n f = (1 \<le> fn_startLine f \<and> fn_startLine f \<le> fn_endLine f \<and> fn_endLine f \<le> n)"

definition extractInv :: "nat \<Rightarrow> ExtractState \<Rightarrow> bool" where
  "extractInv i st =
     (list_all (spanOk i) (es_functions st) \<and>
      (case es_currentFunction st of
         None \<Rightarrow> True
       | Some currentFunction \<Rightarrow>
           1 \<le> fn_startLine currentFunction \<and> fn_startLine currentFunction \<le> i))"

section \<open>Properties of the search\<close>

lemma literalOfPattern_escapeRegex: "literalOfPattern (escapeRegex q) = Some q"
proof (induction q)
  case Nil
  show ?case by simp
next
  case (Cons c cs)
  have bs: "isSyntaxChar backslash"
    by (simp add: isSyntaxChar_def syntaxChars_def backslash_def)
  show ?case
  proof (cases "isSyntaxChar c")
    case True
    then show ?thesis using Cons by simp
  next
    case False
    then have nb: "c \<noteq> backslash" using bs by auto
    show ?thesis
    proof (cases "escapeRegex cs")
      case Nil
      then have "cs = []" by (cases cs) (auto split: if_splits)
      then show ?thesis using False by simp
    next
      case (Cons d ds)
      then show ?thesis using False nb Cons.IH by simp
    qed
  qed
qed

subsection \<open>The result cap\<close>

text \<open>
  The inner loop never lets the result list grow past a bound \<open>M\<close> that the limit does
  not exceed, and it goes on only while the list is shorter than \<open>M\<close>.
\<close>

lemma searchLines_length:
  "searchLines ic q lmt fp i ls rs li = (d, rs', li') \<Longrightarrow> lmt \<le> M \<Longrightarrow> int (length rs) < M \<Longrightarrow>
     int (length rs') \<le> M \<and> (\<not> d \<longrightarrow> int (length rs') < M)"
proof (induction ls arbitrary: i rs li)
  case Nil
  then show ?case by simp
next
  case (Cons l ls)
  obtain m li1 where t: "regexTest ic q li l = (m, li1)"
    by (cases "regexTest ic q li l")
  show ?case
  proof (cases m)
    case False
    with Cons.prems(1) t have "searchLines ic q lmt fp (i + 1) ls rs li1 = (d, rs', li')"
      by simp
    from Cons.IH[OF this Cons.prems(2,3)] show ?thesis .
  next
    case True
    let ?r = "rs @ [\<lparr>sr_file = fp, sr_line = i + 1, sr_content = trim l,
                      sr_matchType = Exact, sr_score = 1\<rparr>]"
    show ?thesis
    proof (cases "int (length ?r) \<ge> lmt")
      case True
      with \<open>m\<close> Cons.prems(1) t have "d" "rs' = ?r"
        by (simp_all add: Let_def)
      then show ?thesis using Cons.prems(3) by simp
    next
      case False
      with \<open>m\<close> Cons.prems(1) t
      have "searchLines ic q lmt fp (i + 1) ls ?r li1 = (d, rs', li')"
        by (simp add: Let_def)
      moreover from False Cons.prems(2) have "int (length ?r) < M"
        by simp
      ultimately show ?thesis using Cons.IH Cons.prems(2) by blast
    qed
  qed
qed

lemma searchFiles_length:
  "searchFiles rx fp ic q lmt files rs li = Inr rs' \<Longrightarrow> lmt \<le> M \<Longrightarrow> int (length rs) < M \<Longrightarrow>
     int (length rs') \<le> M"
proof (induction files arbitrary: rs li)
  case Nil
  then show ?case by simp
next
  case (Cons f files)
  obtain filePath fc where f: "f = (filePath, fc)"
    by (cases f)
  show ?case
  proof (cases "filterFile rx fp filePath")
    case (Inl e)
    with Cons.prems(1) f show ?thesis by simp
  next
    case (Inr b)
    show ?thesis
    proof (cases b)
      case False
      with Inr Cons.prems(1) f have "searchFiles rx fp ic q lmt files rs li = Inr rs'"
        by simp
      from Cons.IH[OF this Cons.prems(2,3)] show ?thesis .
    next
      case True
      obtain d rs1 li1 where s:
        "searchLines ic q lmt filePath 0 (splitOn newline (fc_content fc)) rs li = (d, rs1, li1)"
        by (cases "searchLines ic q lmt filePath 0 (splitOn newline (fc_content fc)) rs li")
      from searchLines_length[OF s Cons.prems(2,3)]
      have b: "int (length rs1) \<le> M" "\<not> d \<Longrightarrow> int (length rs1) < M"
        by auto
      show ?thesis
      proof (cases d)
        case True
        with \<open>b\<close> Inr Cons.prems(1) f s have "rs' = rs1"
          by simp
        with b show ?thesis by simp
      next
        case False
        with \<open>b\<close> Inr Cons.prems(1) f s
        have "searchFiles rx fp ic q lmt files rs1 li1 = Inr rs'"
          by simp
        from Cons.IH[OF this Cons.prems(2) b(2)[OF False]] show ?thesis .
      qed
    qed
  qed
qed

lemma searchCode_searchFiles:
  assumes "searchCode rx st repoId q opts = Inr results"
  shows "\<exists>index. getIndex st repoId = Some index \<and>
           searchFiles rx (so_filePattern opts) (so_caseSensitive opts \<noteq> Some True) q
             (case so_limit opts of None \<Rightarrow> 50 | Some l \<Rightarrow> if l = 0 then 50 else l)
             (ix_files index) [] 0 = Inr results"
proof -
  from assms obtain index where ix: "map_of (indexStore st) repoId = Some index"
    by (auto simp: searchCode_def split: option.splits)
  with assms show ?thesis
    by (simp add: searchCode_def getIndex_def literalOfPattern_escapeRegex Let_def)
qed

lemma searchCode_length:
  assumes "searchCode rx st repoId q opts = Inr results"
    and "(case so_limit opts of None \<Rightarrow> 50 | Some l \<Rightarrow> if l = 0 then 50 else l) \<le> M"
    and "1 \<le> M"
  shows "int (length results) \<le> M"
proof -
  from searchCode_searchFiles[OF assms(1)] obtain index :: RepositoryIndex where
    "searchFiles rx (so_filePattern opts) (so_caseSensitive opts \<noteq> Some True) q
       (case so_limit opts of None \<Rightarrow> 50 | Some l \<Rightarrow> if l = 0 then 50 else l)
       (ix_files index) [] 0 = Inr results"
    by auto
  from searchFiles_length[OF this assms(2)] assms(3) show ?thesis
    by simp
qed

lemma parseSearchLimit_range: "parseSearchLimit requested = Some L \<Longrightarrow> 1 \<le> L \<and> L \<le> 100"
  by (auto simp: parseSearchLimit_def split: option.splits if_splits)

text \<open>
  C3 (as amended).  A search with an integer limit \<open>L \<ge> 1\<close> returns at most \<open>L\<close>
  results.  A limit that is absent or 0 is replaced by 50, and the search then returns
  at most 50 results; a negative limit stops the search at the first match.  The
  boundary schema lets only the limits 1 to 100 through, so that a search it admitted
  returns at most 100 results.
\<close>

theorem searchCode_result_cap:
  assumes "searchCode rx st repoId q opts = Inr results"
  shows "(case so_limit opts of
            None \<Rightarrow> length results \<le> 50
          | Some L \<Rightarrow>
              if L = 0 then length results \<le> 50
              else if 1 \<le> L then int (length results) \<le> L
              else length results \<le> 1)
         \<and> (\<forall>requested L. parseSearchLimit requested = Some L \<and> so_limit opts = Some L
               \<longrightarrow> length results \<le> 100)"
proof -
  note len = searchCode_length[OF assms]
  have a: "so_limit opts = None \<Longrightarrow> length results \<le> 50"
    using len[of 50] by simp
  have b: "so_limit opts = Some 0 \<Longrightarrow> length results \<le> 50"
    using len[of 50] by simp
  have c: "so_limit opts = Some L \<Longrightarrow> 1 \<le> L \<Longrightarrow> int (length results) \<le> L" for L
    using len[of L] by simp
  have d: "so_limit opts = Some L \<Longrightarrow> L < 0 \<Longrightarrow> length results \<le> 1" for L
    using len[of 1] by simp
  have e: "parseSearchLimit requested = Some L \<Longrightarrow> so_limit opts = Some L
             \<Longrightarrow> length results \<le> 100" for requested L
    using c[of L] parseSearchLimit_range[of requested L] by simp
  have first: "(case so_limit opts of
            None \<Rightarrow> length results \<le> 50
          | Some L \<Rightarrow>
              if L = 0 then length results \<le> 50
              else if 1 \<le> L then int (length results) \<le> L
              else length results \<le> 1)"
  proof (cases "so_limit opts")
    case None
    then show ?thesis using a by simp
  next
    case (Some L)
    then show ?thesis using b c[of L] d[of L] by (cases "L = 0"; cases "1 \<le> L") auto
  qed
  show ?thesis using first e by blast
qed

text \<open>
  The file of Scenario A, searched for \<open>add\<close> with limit 7: one result, within the cap.
\<close>

theorem searchCode_result_cap_witness:
  "searchCode noRegExp (exampleStore ''main.ts'' scenarioContent) exampleRepoId ''add''
     \<lparr>so_filePattern = None, so_caseSensitive = None, so_limit = Some 7\<rparr>
     = Inr [\<lparr>sr_file = ''main.ts'', sr_line = 1, sr_content = scenarioContent,
              sr_matchType = Exact, sr_score = 1\<rparr>]
   \<and> int (length [\<lparr>sr_file = ''main.ts'', sr_line = 1, sr_content = scenarioContent,
              sr_matchType = Exact, sr_score = 1\<rparr>]) \<le> 7"
proof -
  have run: "searchCode noRegExp (exampleStore ''main.ts'' scenarioContent) exampleRepoId ''add''
     \<lparr>so_filePattern = None, so_caseSensitive = None, so_limit = Some 7\<rparr>
     = Inr [\<lparr>sr_file = ''main.ts'', sr_line = 1, sr_content = scenarioContent,
              sr_matchType = Exact, sr_score = 1\<rparr>]"
    by code_simp
  from searchCode_result_cap[OF run] show ?thesis
    using run by simp
qed

text \<open>
  The claim as stated fails for the limit 0: the same search with \<open>limit = 0\<close> returns
  one result, which is more than 0.
\<close>

theorem searchCode_limit_zero_counterexample:
  "searchCode noRegExp (exampleStore ''main.ts'' scenarioContent) exampleRepoId ''add''
     \<lparr>so_filePattern = None, so_caseSensitive = None, so_limit = Some 0\<rparr>
     = Inr [\<lparr>sr_file = ''main.ts'', sr_line = 1, sr_content = scenarioContent,
              sr_matchType = Exact, sr_score = 1\<rparr>]
   \<and> \<not> int (length [\<lparr>sr_file = ''main.ts'', sr_line = 1, sr_content = scenarioContent,
              sr_matchType = Exact, sr_score = 1\<rparr>]) \<le> 0"
proof -
  have "searchCode noRegExp (exampleStore ''main.ts'' scenarioContent) exampleRepoId ''add''
     \<lparr>so_filePattern = None, so_caseSensitive = None, so_limit = Some 0\<rparr>
     = Inr [\<lparr>sr_file = ''main.ts'', sr_line = 1, sr_content = scenarioContent,
              sr_matchType = Exact, sr_score = 1\<rparr>]"
    by code_simp
  then show ?thesis by simp
qed

text \<open>
  The \<open>git_search_code\<close> handler runs one search per requested repository and
  concatenates the results: the cap holds for each repository, not for the answer.
\<close>

lemma searchRepositories_length:
  "searchRepositories rx st params repos acc = Inr acc' \<Longrightarrow> 1 \<le> sci_limit params \<Longrightarrow>
     int (length acc') \<le> int (length acc) + sci_limit params * int (length repos)"
proof (induction repos arbitrary: acc)
  case Nil
  then show ?case by simp
next
  case (Cons repo repos)
  show ?case
  proof (cases "notReady st repo")
    case True
    with Cons.prems(1) have "searchRepositories rx st params repos acc = Inr acc'"
      by (auto simp: notReady_def Let_def split: option.splits)
    from Cons.IH[OF this Cons.prems(2)] Cons.prems(2) show ?thesis
      by (simp add: algebra_simps)
  next
    case False
    let ?o = "\<lparr>so_filePattern = sci_file_pattern params,
               so_caseSensitive = Some (sci_case_sensitive params),
               so_limit = Some (sci_limit params)\<rparr>"
    from False Cons.prems(1) obtain results where
      a: "searchCode rx st (refRepoId repo) (sci_query params) ?o = Inr results"
      and r: "searchRepositories rx st params repos
                (acc @ map (toSearchHit repo (refRepoId repo)) results) = Inr acc'"
      by (auto simp: notReady_def Let_def split: option.splits sum.splits if_splits)
    have "int (length results) \<le> sci_limit params"
      using searchCode_length[OF a, of "sci_limit params"] Cons.prems(2) by simp
    with Cons.IH[OF r Cons.prems(2)] show ?thesis
      by (simp add: algebra_simps)
  qed
qed

subsection \<open>What the search reports, and what it misses\<close>

text \<open>
  Every reported result is one of the results C1 describes, and the reported results
  come in the described order: they are a subsequence of the described list.
\<close>

lemma find_SomeD: "find P xs = Some x \<Longrightarrow> P x \<and> x \<in> set xs"
  by (induction xs) (auto split: if_splits)

lemma regexTest_contains: "regexTest ic q li l = (True, li') \<Longrightarrow> lineContains ic q l"
proof -
  assume a: "regexTest ic q li l = (True, li')"
  then obtain k where "find (matchesAt ic q l) [li ..< Suc (length l)] = Some k"
    by (auto simp: regexTest_def split: if_splits option.splits)
  from find_SomeD[OF this] have "matchesAt ic q l k" "k < Suc (length l)"
    by auto
  then have "k \<in> set [0 ..< Suc (length l)] \<and> matchesAt ic q l k"
    by (auto simp: less_Suc_eq)
  then have "\<exists>k \<in> set [0 ..< Suc (length l)]. matchesAt ic q l k"
    by (rule_tac x = k in bexI) simp_all
  then show ?thesis
    unfolding lineContains_def list_ex_iff .
qed

lemma searchLines_subseq:
  "searchLines ic q lmt fp i ls rs li = (d, rs', li') \<Longrightarrow>
     \<exists>xs. rs' = rs @ xs \<and> subseq xs (expectedLines ic q fp i ls)"
proof (induction ls arbitrary: i rs li)
  case Nil
  then show ?case by simp
next
  case (Cons l ls)
  obtain m li1 where t: "regexTest ic q li l = (m, li1)"
    by (cases "regexTest ic q li l")
  show ?case
  proof (cases m)
    case False
    with Cons.prems t have "searchLines ic q lmt fp (i + 1) ls rs li1 = (d, rs', li')"
      by simp
    from Cons.IH[OF this] obtain xs where xs: "rs' = rs @ xs"
      "subseq xs (expectedLines ic q fp (i + 1) ls)"
      by blast
    have "subseq xs (expectedLines ic q fp i (l # ls))"
      using xs(2) by (simp add: subseq_drop_many)
    with xs(1) show ?thesis by blast
  next
    case True
    let ?x = "\<lparr>sr_file = fp, sr_line = i + 1, sr_content = trim l,
               sr_matchType = Exact, sr_score = 1\<rparr>"
    from True t have c: "lineContains ic q l"
      using regexTest_contains[of ic q li l li1] by simp
    show ?thesis
    proof (cases "int (length (rs @ [?x])) \<ge> lmt")
      case True
      with \<open>m\<close> Cons.prems t have "rs' = rs @ [?x]"
        by (simp add: Let_def)
      moreover have "subseq [?x] (expectedLines ic q fp i (l # ls))"
        using c by simp
      ultimately show ?thesis by blast
    next
      case False
      with \<open>m\<close> Cons.prems t
      have "searchLines ic q lmt fp (i + 1) ls (rs @ [?x]) li1 = (d, rs', li')"
        by (simp add: Let_def)
      from Cons.IH[OF this] obtain xs where xs: "rs' = (rs @ [?x]) @ xs"
        "subseq xs (expectedLines ic q fp (i + 1) ls)"
        by blast
      have "subseq (?x # xs) (expectedLines ic q fp i (l # ls))"
        using c xs(2) by simp
      with xs(1) show ?thesis by (metis append.assoc append_Cons append_Nil)
    qed
  qed
qed

lemma searchFiles_subseq:
  "searchFiles rx fp ic q lmt files rs li = Inr rs' \<Longrightarrow>
     \<exists>xs. rs' = rs @ xs
        \<and> subseq xs (expectedResults (\<lambda>p. filterFile rx fp p = Inr True) ic q files)"
proof (induction files arbitrary: rs li)
  case Nil
  then show ?case by (simp add: expectedResults_def)
next
  case (Cons f files)
  obtain filePath fc where f: "f = (filePath, fc)"
    by (cases f)
  let ?E = "expectedResults (\<lambda>p. filterFile rx fp p = Inr True) ic q"
  show ?case
  proof (cases "filterFile rx fp filePath")
    case (Inl e)
    with Cons.prems f show ?thesis by simp
  next
    case (Inr b)
    show ?thesis
    proof (cases b)
      case False
      with Inr Cons.prems f have "searchFiles rx fp ic q lmt files rs li = Inr rs'"
        by simp
      from Cons.IH[OF this] obtain xs where xs: "rs' = rs @ xs" "subseq xs (?E files)"
        by blast
      have "?E (f # files) = ?E files"
        using False Inr f by (simp add: expectedResults_def)
      with xs show ?thesis by auto
    next
      case True
      let ?L = "expectedLines ic q filePath 0 (splitOn newline (fc_content fc))"
      have E: "?E (f # files) = ?L @ ?E files"
        using True Inr f by (simp add: expectedResults_def)
      obtain d rs1 li1 where s:
        "searchLines ic q lmt filePath 0 (splitOn newline (fc_content fc)) rs li = (d, rs1, li1)"
        by (cases "searchLines ic q lmt filePath 0 (splitOn newline (fc_content fc)) rs li")
      from searchLines_subseq[OF s] obtain xs where xs: "rs1 = rs @ xs" "subseq xs ?L"
        by blast
      show ?thesis
      proof (cases d)
        case True
        with \<open>b\<close> Inr Cons.prems f s have "rs' = rs1"
          by simp
        moreover have "subseq xs (?L @ ?E files)"
          using xs(2) by (rule subseq_rev_drop_many)
        ultimately show ?thesis using xs(1) E by auto
      next
        case False
        with \<open>b\<close> Inr Cons.prems f s
        have "searchFiles rx fp ic q lmt files rs1 li1 = Inr rs'"
          by simp
        from Cons.IH[OF this] obtain ys where ys: "rs' = rs1 @ ys" "subseq ys (?E files)"
          by blast
        have "subseq (xs @ ys) (?L @ ?E files)"
          using xs(2) ys(2) by (rule list_emb_append_mono)
        with xs(1) ys(1) E show ?thesis by auto
      qed
    qed
  qed
qed

lemma searchCode_subseq:
  assumes "searchCode rx st repoId q opts = Inr results"
  shows "\<exists>index. getIndex st repoId = Some index \<and>
           subseq results
             (expectedResults (\<lambda>p. filterFile rx (so_filePattern opts) p = Inr True)
                (so_caseSensitive opts \<noteq> Some True) q (ix_files index))"
proof -
  from searchCode_searchFiles[OF assms] obtain index :: RepositoryIndex where
    ix: "getIndex st repoId = Some index"
    and run: "searchFiles rx (so_filePattern opts) (so_caseSensitive opts \<noteq> Some True) q
       (case so_limit opts of None \<Rightarrow> 50 | Some l \<Rightarrow> if l = 0 then 50 else l)
       (ix_files index) [] 0 = Inr results"
    by auto
  from searchFiles_subseq[OF run] ix show ?thesis
    by auto
qed

text \<open>
  C1.  The claim asks for one result for every line that contains the query.  The file
  \<open>twoCalls\<close> has two lines, \<open>  add(1, 2)\<close> and \<open>add(3, 4)\<close>; both contain \<open>add\<close>, and
  the claim describes a result for each.  The search, with no options, reports only
  line 1: the regular expression carries the \<open>g\<close> flag, the hit on line 1 leaves its
  \<open>lastIndex\<close> at 5, and the test of line 2 starts there, past the occurrence at index 0.
\<close>

theorem searchCode_misses_matching_line:
  "searchCode noRegExp (exampleStore ''main.ts'' twoCalls) exampleRepoId ''add'' noOptions
     = Inr [\<lparr>sr_file = ''main.ts'', sr_line = 1, sr_content = ''add(1, 2)'',
              sr_matchType = Exact, sr_score = 1\<rparr>]
   \<and> map_option (\<lambda>index. expectedResults everyFile True ''add'' (ix_files index))
        (getIndex (exampleStore ''main.ts'' twoCalls) exampleRepoId)
     = Some [\<lparr>sr_file = ''main.ts'', sr_line = 1, sr_content = ''add(1, 2)'',
               sr_matchType = Exact, sr_score = 1\<rparr>,
             \<lparr>sr_file = ''main.ts'', sr_line = 2, sr_content = ''add(3, 4)'',
               sr_matchType = Exact, sr_score = 1\<rparr>]
   \<and> splitOn newline twoCalls = [''  add(1, 2)'', ''add(3, 4)'']
   \<and> lineContains True ''add'' ''add(3, 4)''
   \<and> regexTest True ''add'' 0 ''  add(1, 2)'' = (True, 5)
   \<and> regexTest True ''add'' 5 ''add(3, 4)'' = (False, 0)"
  by code_simp

subsection \<open>Searching a repository that has no index\<close>










subsection \<open>The fixed limit of the natural-language query\<close>

lemma keywordSearch_length:
  assumes "keywordSearch rx st repoId kw = Inr results"
  shows "length results \<le> 10"
proof -
  from assms have "searchCode rx st repoId kw
      \<lparr>so_filePattern = None, so_caseSensitive = None, so_limit = Some 10\<rparr> = Inr results"
    by (simp add: keywordSearch_def)
  from searchCode_length[OF this, of 10] show ?thesis
    by simp
qed

lemma queryKeywords_pieces:
  "queryKeywords rx st repoId kws acc = Inr acc' \<Longrightarrow>
     \<exists>pieces. acc' = acc @ concat (map (map (toQueryHit repoId)) pieces) \<and>
        list_all2 (\<lambda>kw rs. keywordSearch rx st repoId kw = Inr rs \<and> length rs \<le> 10) kws pieces"
proof (induction kws arbitrary: acc)
  case Nil
  then show ?case by simp
next
  case (Cons kw kws)
  from Cons.prems obtain rs where rs: "keywordSearch rx st repoId kw = Inr rs"
    and rest: "queryKeywords rx st repoId kws (acc @ map (toQueryHit repoId) rs) = Inr acc'"
    by (auto split: sum.splits)
  from Cons.IH[OF rest] obtain pieces where
    p: "acc' = (acc @ map (toQueryHit repoId) rs) @ concat (map (map (toQueryHit repoId)) pieces)"
       "list_all2 (\<lambda>kw rs. keywordSearch rx st repoId kw = Inr rs \<and> length rs \<le> 10) kws pieces"
    by blast
  have "acc' = acc @ concat (map (map (toQueryHit repoId)) (rs # pieces))"
    using p(1) by simp
  moreover have "list_all2 (\<lambda>kw rs. keywordSearch rx st repoId kw = Inr rs \<and> length rs \<le> 10)
                   (kw # kws) (rs # pieces)"
    using p(2) rs keywordSearch_length[OF rs] by simp
  ultimately show ?case by blast
qed

lemma queryKeywords_length:
  "queryKeywords rx st repoId kws acc = Inr acc' \<Longrightarrow> length acc' \<le> length acc + 10 * length kws"
proof (induction kws arbitrary: acc)
  case Nil
  then show ?case by simp
next
  case (Cons kw kws)
  from Cons.prems obtain rs where rs: "keywordSearch rx st repoId kw = Inr rs"
    and rest: "queryKeywords rx st repoId kws (acc @ map (toQueryHit repoId) rs) = Inr acc'"
    by (auto split: sum.splits)
  from Cons.IH[OF rest] keywordSearch_length[OF rs] show ?case
    by simp
qed

lemma queryRepositories_length:
  "queryRepositories rx st kws repos acc = Inr acc' \<Longrightarrow>
     length acc' \<le> length acc + 10 * length kws * length repos"
proof (induction repos arbitrary: acc)
  case Nil
  then show ?case by simp
next
  case (Cons repo repos)
  show ?case
  proof (cases "notReady st repo")
    case True
    with Cons.prems have "queryRepositories rx st kws repos acc = Inr acc'"
      by (auto simp: notReady_def Let_def split: option.splits)
    from Cons.IH[OF this] show ?thesis
      by simp
  next
    case False
    with Cons.prems obtain acc1 where a: "queryKeywords rx st (refRepoId repo) kws acc = Inr acc1"
      and r: "queryRepositories rx st kws repos acc1 = Inr acc'"
      by (auto simp: notReady_def Let_def split: option.splits sum.splits if_splits)
    from Cons.IH[OF r] queryKeywords_length[OF a] show ?thesis
      by (simp add: algebra_simps)
  qed
qed

text \<open>
  C10.  In the natural-language query every search is \<open>keywordSearch\<close>, whose limit is
  the constant 10: a search for one keyword in one repository returns at most 10
  results; what the loop over the keywords adds for one repository is, keyword by
  keyword, the results of these searches, at most 10 each; and the list accumulated
  over all repositories, before deduplication, has at most 10 entries per keyword and
  repository.
\<close>

theorem query_keyword_limit:
  "(\<forall>results. keywordSearch rx st repoId kw = Inr results \<longrightarrow> length results \<le> 10)
   \<and> keywordSearch rx st repoId kw
       = searchCode rx st repoId kw
           \<lparr>so_filePattern = None, so_caseSensitive = None, so_limit = Some 10\<rparr>
   \<and> (\<forall>acc'. queryKeywords rx st repoId kws acc = Inr acc' \<longrightarrow>
         (\<exists>pieces. acc' = acc @ concat (map (map (toQueryHit repoId)) pieces) \<and>
            list_all2 (\<lambda>kw rs. keywordSearch rx st repoId kw = Inr rs \<and> length rs \<le> 10)
              kws pieces))
   \<and> (\<forall>allResults. queryRepositories rx st kws repos [] = Inr allResults \<longrightarrow>
         length allResults \<le> 10 * length kws * length repos)"
proof -
  have a: "\<forall>results. keywordSearch rx st repoId kw = Inr results \<longrightarrow> length results \<le> 10"
    using keywordSearch_length by blast
  have b: "keywordSearch rx st repoId kw
       = searchCode rx st repoId kw
           \<lparr>so_filePattern = None, so_caseSensitive = None, so_limit = Some 10\<rparr>"
    by (simp add: keywordSearch_def)
  have c: "\<forall>acc'. queryKeywords rx st repoId kws acc = Inr acc' \<longrightarrow>
         (\<exists>pieces. acc' = acc @ concat (map (map (toQueryHit repoId)) pieces) \<and>
            list_all2 (\<lambda>kw rs. keywordSearch rx st repoId kw = Inr rs \<and> length rs \<le> 10)
              kws pieces)"
    using queryKeywords_pieces by blast
  have d: "\<forall>allResults. queryRepositories rx st kws repos [] = Inr allResults \<longrightarrow>
         length allResults \<le> 10 * length kws * length repos"
    using queryRepositories_length[of rx st kws repos "[]"] by simp
  show ?thesis using a b c d by blast
qed

text \<open>
  Scenario A's index, the keywords \<open>add\<close> and \<open>work\<close>: the search for \<open>add\<close> returns one
  result, the search for \<open>work\<close> none, and one entry is accumulated.
\<close>

theorem query_keyword_limit_witness:
  "keywordSearch noRegExp (exampleStore ''main.ts'' scenarioContent) exampleRepoId ''add''
     = Inr [\<lparr>sr_file = ''main.ts'', sr_line = 1, sr_content = scenarioContent,
              sr_matchType = Exact, sr_score = 1\<rparr>]
   \<and> length [\<lparr>sr_file = ''main.ts'', sr_line = 1, sr_content = scenarioContent,
              sr_matchType = Exact, sr_score = 1\<rparr>] \<le> 10
   \<and> queryRepositories noRegExp (exampleStore ''main.ts'' scenarioContent) [''add'', ''work'']
        [exampleRef] []
       = Inr [\<lparr>qh_repoId = exampleRepoId, qh_file = ''main.ts'', qh_line = 1,
                qh_content = scenarioContent\<rparr>]
   \<and> length [\<lparr>qh_repoId = exampleRepoId, qh_file = ''main.ts'', qh_line = 1,
                qh_content = scenarioContent\<rparr>]
        \<le> 10 * length [''add'', ''work''] * length [exampleRef]"
proof -
  have a: "keywordSearch noRegExp (exampleStore ''main.ts'' scenarioContent) exampleRepoId ''add''
     = Inr [\<lparr>sr_file = ''main.ts'', sr_line = 1, sr_content = scenarioContent,
              sr_matchType = Exact, sr_score = 1\<rparr>]"
    by code_simp
  have b: "queryRepositories noRegExp (exampleStore ''main.ts'' scenarioContent) [''add'', ''work'']
        [exampleRef] []
       = Inr [\<lparr>qh_repoId = exampleRepoId, qh_file = ''main.ts'', qh_line = 1,
                qh_content = scenarioContent\<rparr>]"
    by code_simp
  from query_keyword_limit[of noRegExp "exampleStore ''main.ts'' scenarioContent" exampleRepoId
      "''add''" "[''add'', ''work'']" "[]" "[exampleRef]"]
  show ?thesis using a b by simp
qed

section \<open>Properties of the function extraction\<close>

subsection \<open>Start line and end line\<close>

lemma list_all_spanOk_mono: "list_all (spanOk n) fs \<Longrightarrow> n \<le> m \<Longrightarrow> list_all (spanOk m) fs"
  by (induction fs) (auto simp: spanOk_def)

text \<open>
  First closing path: a later declaration closes the open function at index \<open>i\<close>, which
  is at least its start line.  The new function starts at line \<open>i + 1\<close>.
\<close>

lemma checkFunctionStart_inv:
  assumes "extractInv i st"
  shows "list_all (spanOk i) (es_functions (checkFunctionStart matchDecl filePath i line st))
    \<and> (case es_currentFunction (checkFunctionStart matchDecl filePath i line st) of
         None \<Rightarrow> True
       | Some currentFunction \<Rightarrow>
           1 \<le> fn_startLine currentFunction \<and> fn_startLine currentFunction \<le> i + 1)"
proof (cases "matchDecl (trim line)")
  case None
  with assms show ?thesis
    by (auto simp: checkFunctionStart_def extractInv_def split: option.splits)
next
  case (Some np)
  obtain name params where np: "np = (name, params)"
    by (cases np)
  with Some assms show ?thesis
    by (auto simp: checkFunctionStart_def extractInv_def spanOk_def split: option.splits)
qed

text \<open>Second closing path: the brace balance closes the open function at line \<open>i + 1\<close>.\<close>

lemma trackBraces_inv:
  assumes "list_all (spanOk i) (es_functions st)"
    and "case es_currentFunction st of
           None \<Rightarrow> True
         | Some currentFunction \<Rightarrow>
             1 \<le> fn_startLine currentFunction \<and> fn_startLine currentFunction \<le> i + 1"
  shows "extractInv (i + 1) (trackBraces i line st)"
proof -
  have m: "list_all (spanOk (i + 1)) (es_functions st)"
    using assms(1) list_all_spanOk_mono by force
  show ?thesis
  proof (cases "es_currentFunction st")
    case None
    with m show ?thesis
      by (simp add: trackBraces_def extractInv_def)
  next
    case (Some cf)
    with assms(2) have "1 \<le> fn_startLine cf" "fn_startLine cf \<le> i + 1"
      by simp_all
    with Some m show ?thesis
      by (simp add: trackBraces_def extractInv_def spanOk_def Let_def)
  qed
qed

lemma extractLoop_inv:
  "extractInv i st \<Longrightarrow> extractInv (i + length ls) (extractLoop matchDecl filePath i ls st)"
proof (induction ls arbitrary: i st)
  case Nil
  then show ?case by simp
next
  case (Cons l ls)
  from checkFunctionStart_inv[OF Cons.prems, of matchDecl filePath l]
  have "extractInv (i + 1) (trackBraces i l (checkFunctionStart matchDecl filePath i l st))"
    using trackBraces_inv by blast
  from Cons.IH[OF this] show ?case
    by simp
qed

text \<open>Third closing path: the end of the file closes the open function at the last line.\<close>

lemma extractFunctionsWith_spans:
  "list_all (spanOk (length (splitOn newline content)))
     (extractFunctionsWith matchDecl content filePath)"
proof -
  let ?ls = "splitOn newline content"
  let ?st = "extractLoop matchDecl filePath 0 ?ls initialExtractState"
  have "extractInv 0 initialExtractState"
    by (simp add: extractInv_def initialExtractState_def)
  from extractLoop_inv[OF this, of ?ls matchDecl filePath]
  have inv: "extractInv (length ?ls) ?st"
    by simp
  show ?thesis
  proof (cases "es_currentFunction ?st")
    case None
    with inv show ?thesis
      by (simp add: extractFunctionsWith_def extractInv_def Let_def)
  next
    case (Some cf)
    with inv show ?thesis
      by (simp add: extractFunctionsWith_def extractInv_def Let_def spanOk_def)
  qed
qed

text \<open>
  C6.  Every record that \<open>extractFunctions\<close> returns, for any text, file path and
  language tag, has a start line of at least 1, an end line not before its start line,
  and an end line within the file.
\<close>

theorem extractFunctions_span:
  "f \<in> set (extractFunctions content filePath language) \<Longrightarrow>
     1 \<le> fn_startLine f \<and> fn_startLine f \<le> fn_endLine f
     \<and> fn_endLine f \<le> length (splitOn newline content)"
  using extractFunctionsWith_spans[of content "matchFunctionStart functionPatterns" filePath]
  by (auto simp: extractFunctions_def list_all_iff spanOk_def)

text \<open>
  Two declarations on two lines: \<open>f\<close> is closed by the declaration of \<open>g\<close>, and \<open>g\<close> by
  the end of the file.
\<close>

theorem extractFunctions_span_witness:
  "\<lparr>fn_name = ''f'', fn_file = ''main.ts'', fn_startLine = 1, fn_endLine = 1,
     fn_signature = ''f()'', fn_calls = [], fn_calledBy = []\<rparr>
     \<in> set (extractFunctions twoFunctions ''main.ts'' ''typescript'')
   \<and> (1::nat) \<le> 1 \<and> (1::nat) \<le> length (splitOn newline twoFunctions)"
proof -
  have run: "extractFunctions twoFunctions ''main.ts'' ''typescript'' =
      [\<lparr>fn_name = ''f'', fn_file = ''main.ts'', fn_startLine = 1, fn_endLine = 1,
         fn_signature = ''f()'', fn_calls = [], fn_calledBy = []\<rparr>,
       \<lparr>fn_name = ''g'', fn_file = ''main.ts'', fn_startLine = 2, fn_endLine = 2,
         fn_signature = ''g()'', fn_calls = [], fn_calledBy = []\<rparr>]"
    by code_simp
  have mem: "\<lparr>fn_name = ''f'', fn_file = ''main.ts'', fn_startLine = 1, fn_endLine = 1,
     fn_signature = ''f()'', fn_calls = [], fn_calledBy = []\<rparr>
     \<in> set (extractFunctions twoFunctions ''main.ts'' ''typescript'')"
    unfolding run by simp
  from extractFunctions_span[OF mem] mem show ?thesis
    by simp
qed

subsection \<open>A declaration while inside a function\<close>

lemma trackBraces_extends:
  "\<exists>later. es_functions (trackBraces i line st) = es_functions st @ later"
  by (simp add: trackBraces_def Let_def split: option.splits)

lemma checkFunctionStart_extends:
  "\<exists>later. es_functions (checkFunctionStart matchDecl filePath i line st)
             = es_functions st @ later"
  by (auto simp: checkFunctionStart_def split: option.splits)

lemma extractLoop_extends:
  "\<exists>later. es_functions (extractLoop matchDecl filePath i ls st) = es_functions st @ later"
proof (induction ls arbitrary: i st)
  case Nil
  then show ?case by simp
next
  case (Cons l ls)
  let ?a = "checkFunctionStart matchDecl filePath i l st"
  let ?b = "trackBraces i l ?a"
  obtain x where x: "es_functions ?a = es_functions st @ x"
    using checkFunctionStart_extends by blast
  obtain y where y: "es_functions ?b = es_functions ?a @ y"
    using trackBraces_extends by blast
  obtain z where z:
    "es_functions (extractLoop matchDecl filePath (i + 1) ls ?b) = es_functions ?b @ z"
    using Cons.IH by blast
  show ?case using x y z by simp
qed

text \<open>
  C2 (as amended).  The line at index \<open>i\<close> has the number \<open>i + 1\<close>.  When a declaration
  pattern matches on it while the extractor is inside a function, the previous function
  is closed at line \<open>i\<close>, the line before the current one, and pushed to the output list,
  where it stays; the new record starts and tentatively ends at the current line
  \<open>i + 1\<close>, its signature is the captured name followed by the raw parameter text in
  parentheses, and the brace counter is reset to zero.
\<close>

theorem declaration_inside_function:
  assumes "matchDecl (trim line) = Some (name, params)"
    and "es_currentFunction st = Some previous"
    and "es_inFunction st"
  shows "checkFunctionStart matchDecl filePath i line st =
           \<lparr>es_functions = es_functions st @ [previous\<lparr>fn_endLine := i\<rparr>],
            es_currentFunction =
              Some \<lparr>fn_name = name, fn_file = filePath, fn_startLine = i + 1,
                    fn_endLine = i + 1, fn_signature = name @ ''('' @ params @ '')'',
                    fn_calls = [], fn_calledBy = []\<rparr>,
            es_braceCount = 0, es_inFunction = True\<rparr>
         \<and> (\<exists>later. es_functions (extractLoop matchDecl filePath i (line # rest) st)
               = es_functions st @ [previous\<lparr>fn_endLine := i\<rparr>] @ later)"
proof -
  let ?a = "checkFunctionStart matchDecl filePath i line st"
  have a: "?a =
           \<lparr>es_functions = es_functions st @ [previous\<lparr>fn_endLine := i\<rparr>],
            es_currentFunction =
              Some \<lparr>fn_name = name, fn_file = filePath, fn_startLine = i + 1,
                    fn_endLine = i + 1, fn_signature = name @ ''('' @ params @ '')'',
                    fn_calls = [], fn_calledBy = []\<rparr>,
            es_braceCount = 0, es_inFunction = True\<rparr>"
    using assms by (simp add: checkFunctionStart_def)
  obtain y where y: "es_functions (trackBraces i line ?a) = es_functions ?a @ y"
    using trackBraces_extends by blast
  obtain z where z:
    "es_functions (extractLoop matchDecl filePath (i + 1) rest (trackBraces i line ?a))
       = es_functions (trackBraces i line ?a) @ z"
    using extractLoop_extends by blast
  have "es_functions (extractLoop matchDecl filePath i (line # rest) st)
          = es_functions st @ [previous\<lparr>fn_endLine := i\<rparr>] @ (y @ z)"
    using y z a by simp
  then show ?thesis using a by blast
qed

text \<open>
  The second line of \<open>twoFunctions\<close>, index 1 and line number 2, declares \<open>g\<close> while \<open>f\<close>
  is open: \<open>f\<close> is pushed with end line 1.
\<close>

theorem declaration_inside_function_witness:
  "matchFunctionStart functionPatterns (trim ''function g() {'') = Some (''g'', [])
   \<and> es_currentFunction afterFirstLine
       = Some \<lparr>fn_name = ''f'', fn_file = ''main.ts'', fn_startLine = 1, fn_endLine = 1,
               fn_signature = ''f()'', fn_calls = [], fn_calledBy = []\<rparr>
   \<and> es_inFunction afterFirstLine
   \<and> checkFunctionStart (matchFunctionStart functionPatterns) ''main.ts'' 1 ''function g() {''
       afterFirstLine =
         \<lparr>es_functions =
            [\<lparr>fn_name = ''f'', fn_file = ''main.ts'', fn_startLine = 1, fn_endLine = 1,
              fn_signature = ''f()'', fn_calls = [], fn_calledBy = []\<rparr>],
          es_currentFunction =
            Some \<lparr>fn_name = ''g'', fn_file = ''main.ts'', fn_startLine = 2, fn_endLine = 2,
                  fn_signature = ''g()'', fn_calls = [], fn_calledBy = []\<rparr>,
          es_braceCount = 0, es_inFunction = True\<rparr>"
proof -
  have m: "matchFunctionStart functionPatterns (trim ''function g() {'') = Some (''g'', [])"
    by code_simp
  have c: "es_currentFunction afterFirstLine
       = Some \<lparr>fn_name = ''f'', fn_file = ''main.ts'', fn_startLine = 1, fn_endLine = 1,
               fn_signature = ''f()'', fn_calls = [], fn_calledBy = []\<rparr>"
    by code_simp
  have i: "es_inFunction afterFirstLine"
    by code_simp
  have e: "es_functions afterFirstLine = []"
    by code_simp
  from declaration_inside_function[where matchDecl = "matchFunctionStart functionPatterns"
      and line = "''function g() {''" and filePath = "''main.ts''" and i = 1 and rest = "[]",
      OF m c i]
  show ?thesis using m c i e by simp
qed

text \<open>
  The claim as stated closes the previous function at the current line.  In
  \<open>twoFunctions\<close> the declaration of \<open>g\<close> is on line 2, and \<open>f\<close> is closed at line 1.
\<close>

theorem declaration_inside_function_counterexample:
  "splitOn newline twoFunctions = [''function f() {'', ''function g() {'']
   \<and> matchFunctionStart functionPatterns (trim ''function g() {'') = Some (''g'', [])
   \<and> extractFunctions twoFunctions ''main.ts'' ''typescript'' =
      [\<lparr>fn_name = ''f'', fn_file = ''main.ts'', fn_startLine = 1, fn_endLine = 1,
         fn_signature = ''f()'', fn_calls = [], fn_calledBy = []\<rparr>,
       \<lparr>fn_name = ''g'', fn_file = ''main.ts'', fn_startLine = 2, fn_endLine = 2,
         fn_signature = ''g()'', fn_calls = [], fn_calledBy = []\<rparr>]
   \<and> map fn_endLine
        (es_functions (checkFunctionStart (matchFunctionStart functionPatterns) ''main.ts'' 1
           ''function g() {'' afterFirstLine)) \<noteq> [2]"
  by code_simp

section \<open>Properties of the repository identity\<close>

lemma split_at_first:
  "x \<notin> set xs \<Longrightarrow> x \<notin> set xs' \<Longrightarrow> xs @ x # ys = xs' @ x # ys' \<Longrightarrow> xs = xs' \<and> ys = ys'"
proof (induction xs arbitrary: xs')
  case Nil
  then show ?case by (cases xs') auto
next
  case (Cons a xs)
  then show ?case by (cases xs') auto
qed

lemma generateRepoId_inj:
  assumes "CHR '':'' \<notin> set remote" "CHR '':'' \<notin> set remote'"
    and "CHR '':'' \<notin> set branch" "CHR '':'' \<notin> set branch'"
    and "CHR ''/'' \<notin> set owner" "CHR ''/'' \<notin> set owner'"
    and "generateRepoId remote owner name branch = generateRepoId remote' owner' name' branch'"
  shows "remote = remote' \<and> branch = branch' \<and> owner = owner' \<and> name = name'"
proof -
  from assms(7)
  have "remote @ CHR '':'' # (branch @ CHR '':'' # (owner @ CHR ''/'' # name))
      = remote' @ CHR '':'' # (branch' @ CHR '':'' # (owner' @ CHR ''/'' # name'))"
    by (simp add: generateRepoId_def)
  from split_at_first[OF assms(1,2) this] have r: "remote = remote'"
    and e1: "branch @ CHR '':'' # (owner @ CHR ''/'' # name)
               = branch' @ CHR '':'' # (owner' @ CHR ''/'' # name')"
    by simp_all
  from split_at_first[OF assms(3,4) e1] have b: "branch = branch'"
    and e2: "owner @ CHR ''/'' # name = owner' @ CHR ''/'' # name'"
    by simp_all
  from split_at_first[OF assms(5,6) e2] r b show ?thesis
    by simp
qed

lemma setRepository_overwrites:
  "getRepository (setRepository repoId repo st) repoId = Some repo
   \<and> (\<forall>other. other \<noteq> repoId \<longrightarrow>
         getRepository (setRepository repoId repo st) other = getRepository st other)
   \<and> (distinct (map fst (repositoryStore st)) \<longrightarrow>
         distinct (map fst (repositoryStore (setRepository repoId repo st))))
   \<and> (getRepository st repoId \<noteq> None \<longrightarrow>
        map fst (repositoryStore (setRepository repoId repo st)) = map fst (repositoryStore st)
        \<and> length (listRepositories (setRepository repoId repo st))
            = length (listRepositories st))"
proof -
  have k: "getRepository st repoId \<noteq> None \<Longrightarrow> repoId \<in> fst ` set (repositoryStore st)"
    by (auto simp: getRepository_def dest: map_of_SomeD intro: rev_image_eqI)
  have l: "length (listRepositories s) = length (map fst (repositoryStore s))" for s
    by (simp add: listRepositories_def)
  show ?thesis
    using k unfolding l
    by (auto simp: getRepository_def setRepository_def update_conv' distinct_update update_keys)
qed

text \<open>
  C4 (as amended).  Two tuples whose remote kinds and branches contain no colon and
  whose owners contain no slash get the same identity key only if they are the same
  tuple.  Storing a repository under a key replaces the record under that key: the
  lookup gives the new record, the other keys keep theirs, the keys stay distinct, and
  when the key was already used the store keeps its keys, their order and their number.
\<close>

theorem repository_identity:
  "(CHR '':'' \<notin> set remote \<and> CHR '':'' \<notin> set remote'
      \<and> CHR '':'' \<notin> set branch \<and> CHR '':'' \<notin> set branch'
      \<and> CHR ''/'' \<notin> set owner \<and> CHR ''/'' \<notin> set owner'
      \<and> generateRepoId remote owner name branch = generateRepoId remote' owner' name' branch'
      \<longrightarrow> remote = remote' \<and> branch = branch' \<and> owner = owner' \<and> name = name')
   \<and> getRepository (setRepository repoId repo st) repoId = Some repo
   \<and> (\<forall>other. other \<noteq> repoId \<longrightarrow>
         getRepository (setRepository repoId repo st) other = getRepository st other)
   \<and> (distinct (map fst (repositoryStore st)) \<longrightarrow>
         distinct (map fst (repositoryStore (setRepository repoId repo st))))
   \<and> (getRepository st repoId \<noteq> None \<longrightarrow>
        map fst (repositoryStore (setRepository repoId repo st)) = map fst (repositoryStore st)
        \<and> length (listRepositories (setRepository repoId repo st))
            = length (listRepositories st))"
  using generateRepoId_inj[of remote remote' branch branch' owner owner' name name']
    setRepository_overwrites[of repoId repo st]
  by blast

text \<open>
  The pending repository \<open>acme/demo\<close> is stored again under its key, now ready: the
  store still has one record, the new one.
\<close>

theorem repository_identity_witness:
  "CHR '':'' \<notin> set ''github'' \<and> CHR '':'' \<notin> set ''main'' \<and> CHR ''/'' \<notin> set ''acme''
   \<and> generateRepoId ''github'' ''acme'' ''demo'' ''main'' = ''github:main:acme/demo''
   \<and> getRepository pendingStore exampleRepoId \<noteq> None
   \<and> distinct (map fst (repositoryStore pendingStore))
   \<and> getRepository
        (setRepository exampleRepoId (exampleRepository\<lparr>repo_status := Ready\<rparr>) pendingStore)
        exampleRepoId = Some (exampleRepository\<lparr>repo_status := Ready\<rparr>)
   \<and> length (listRepositories
        (setRepository exampleRepoId (exampleRepository\<lparr>repo_status := Ready\<rparr>) pendingStore))
       = length (listRepositories pendingStore)
   \<and> length (listRepositories pendingStore) = 1"
proof -
  have a: "CHR '':'' \<notin> set ''github'' \<and> CHR '':'' \<notin> set ''main'' \<and> CHR ''/'' \<notin> set ''acme''"
    by simp
  have b: "generateRepoId ''github'' ''acme'' ''demo'' ''main'' = ''github:main:acme/demo''"
    by (simp add: generateRepoId_def)
  have c: "getRepository pendingStore exampleRepoId \<noteq> None"
    by code_simp
  have d: "distinct (map fst (repositoryStore pendingStore))"
    by code_simp
  have e: "length (listRepositories pendingStore) = 1"
    by code_simp
  from repository_identity[of "''github''" "''github''" "''main''" "''main''" "''acme''" "''acme''"
      "''demo''" "''demo''" exampleRepoId "exampleRepository\<lparr>repo_status := Ready\<rparr>" pendingStore]
  show ?thesis using a b c d e by simp
qed

text \<open>
  The claim as stated gives every tuple its own key.  The owner \<open>a/b\<close> with the name
  \<open>c\<close> and the owner \<open>a\<close> with the name \<open>b/c\<close> share the key \<open>github:main:a/b/c\<close>.
\<close>

theorem repository_identity_counterexample:
  "generateRepoId ''github'' ''a/b'' ''c'' ''main'' = generateRepoId ''github'' ''a'' ''b/c'' ''main''
   \<and> (''github'', ''main'', ''a/b'', ''c'') \<noteq> (''github'', ''main'', ''a'', ''b/c'')"
  by (simp add: generateRepoId_def)

section \<open>Properties of the query router\<close>

subsection \<open>Keywords\<close>







subsection \<open>Deduplication\<close>






















section \<open>Properties of the indexing pass\<close>

subsection \<open>Built-in exclusions and repository rules\<close>









subsection \<open>The tables of the index\<close>






















subsection \<open>Scenario A\<close>

text \<open>
  C8 (as amended).  The clone holds the one file \<open>main.ts\<close> with the one declaration
  \<open>export const add = (a, b) => a + b\<close>.  The indexing pass succeeds; the index has the
  one file and exactly one function record, named \<open>add\<close>, with start line 1, and the
  export list of \<open>main.ts\<close> is \<open>add\<close>.  The declaration has no braces, so the record is
  closed by the end of the file, at the number of lines of the file: the end line is 1
  when the content ends with the declaration, and 2 when a line break follows it.
\<close>

theorem scenario_A_index:
  "(case exampleIndexing ''main.ts'' ''export const add = (a, b) => a + b'' of
      Inl e \<Rightarrow> False
    | Inr (index, st') \<Rightarrow>
        map fst (ix_files index) = [''main.ts'']
        \<and> ix_functions index =
            [(''main.ts:add'',
              \<lparr>fn_name = ''add'', fn_file = ''main.ts'', fn_startLine = 1, fn_endLine = 1,
               fn_signature = ''add(a, b)'', fn_calls = [], fn_calledBy = []\<rparr>)]
        \<and> map_of (ix_exports index) ''main.ts'' = Some [''add'']
        \<and> map_option fc_exports (map_of (ix_files index) ''main.ts'') = Some [''add'']
        \<and> map_option fc_lines (map_of (ix_files index) ''main.ts'') = Some 1
        \<and> getIndex st' exampleRepoId = Some index)
   \<and> (case exampleIndexing ''main.ts'' (''export const add = (a, b) => a + b'' @ [newline]) of
      Inl e \<Rightarrow> False
    | Inr (index, st') \<Rightarrow>
        map fst (ix_files index) = [''main.ts'']
        \<and> ix_functions index =
            [(''main.ts:add'',
              \<lparr>fn_name = ''add'', fn_file = ''main.ts'', fn_startLine = 1, fn_endLine = 2,
               fn_signature = ''add(a, b)'', fn_calls = [], fn_calledBy = []\<rparr>)]
        \<and> map_of (ix_exports index) ''main.ts'' = Some [''add'']
        \<and> map_option fc_exports (map_of (ix_files index) ''main.ts'') = Some [''add'']
        \<and> map_option fc_lines (map_of (ix_files index) ''main.ts'') = Some 2
        \<and> getIndex st' exampleRepoId = Some index)"
  by code_simp

text \<open>
  The claim as stated fixes a one-line span.  With the file \<open>main.ts\<close> holding the
  declaration and the line break that ends its line, the one function record of the
  index is \<open>add\<close> with start line 1 and end line 2.
\<close>

theorem scenario_A_index_counterexample:
  "(case exampleIndexing ''main.ts'' (''export const add = (a, b) => a + b'' @ [newline]) of
      Inl e \<Rightarrow> False
    | Inr (index, st') \<Rightarrow>
        map (\<lambda>entry. (fn_name (snd entry), fn_startLine (snd entry), fn_endLine (snd entry)))
            (ix_functions index)
          = [(''add'', 1, 2)])
   \<and> extractFunctions (''export const add = (a, b) => a + b'' @ [newline]) ''main.ts'' ''typescript''
     = [\<lparr>fn_name = ''add'', fn_file = ''main.ts'', fn_startLine = 1, fn_endLine = 2,
         fn_signature = ''add(a, b)'', fn_calls = [], fn_calledBy = []\<rparr>]"
  by code_simp

end
